theory Spec2Isabelle
  imports Complex_Main
begin

section \<open>Supa Shots: the batch generation orchestrator\<close>

text \<open>
  A shallow embedding of the parts of the application that schedule, retry, merge and
  persist the generation of a batch of shots: \<^verbatim>\<open>types.ts\<close>, \<^verbatim>\<open>constants.ts\<close> (style catalogs, shot table,
  \<^verbatim>\<open>getShotDefinition\<close>), \<^verbatim>\<open>services/geminiService.ts\<close> (\<^verbatim>\<open>analyzeProduct\<close>,
  \<^verbatim>\<open>mapToGeminiAspectRatio\<close>, \<^verbatim>\<open>generateShot\<close>, \<^verbatim>\<open>editShot\<close>),
  \<^verbatim>\<open>services/historyService.ts\<close> (\<^verbatim>\<open>saveProject\<close>) and the handlers of \<^verbatim>\<open>App.tsx\<close>.

  Conventions. A JavaScript string is a \<^typ>\<open>string\<close> holding its UTF-8 bytes. An optional
  property or a nullable value is an \<^typ>\<open>'a option\<close>. \<^verbatim>\<open>Date.now()\<close> is a parameter
  \<open>now\<close> of the handler that reads it. An exception is the \<open>Inl\<close> side of a sum. The
  external services (the Gemini client, \<^verbatim>\<open>JSON.parse\<close>, the IndexedDB store) are
  parameters of the functions that call them.
\<close>

subsection \<open>Enumerations and interfaces of \<^verbatim>\<open>types.ts\<close>\<close>

text \<open>
  The enumerations \<^verbatim>\<open>ProductStyle\<close> and \<^verbatim>\<open>SubjectType\<close>, by their members, and the interface
  \<^verbatim>\<open>ShotDefinition\<close>. The other interfaces of the file (\<^verbatim>\<open>GeneratedImage\<close>,
  \<^verbatim>\<open>ProductAnalysisResult\<close>, \<^verbatim>\<open>ProjectHistory\<close>) follow where they are first used.
\<close>

datatype ProductStyle =
    HERO | MACRO | LIQUID | SCULPTURAL | FLOATING | SENSORY | COLOR | INGREDIENT | SURREAL
  | MCU | MS | OS | WS | HA | LA | P | ThreeQ | B

datatype SubjectType = UNKNOWN | PRODUCT | HUMAN | MIXED

text \<open>The string literal type \<^verbatim>\<open>AspectRatio\<close>: \<^verbatim>\<open>'1:1'\<close>, \<^verbatim>\<open>'2:3'\<close>, ... .\<close>

datatype AspectRatio =
    Ratio_1_1 | Ratio_2_3 | Ratio_3_2 | Ratio_3_4 | Ratio_4_3 | Ratio_9_16 | Ratio_16_9 | Ratio_21_9

record ShotDefinition =
  sd_id :: ProductStyle
  sd_label :: string
  sd_description :: string
  sd_emotional :: string
  sd_promptTemplate :: string

subsection \<open>\<^verbatim>\<open>constants.ts\<close>\<close>

definition PRODUCT_QUALITY_SUFFIX :: string where
  "PRODUCT_QUALITY_SUFFIX =
    [CHR 0x0A] @ ''CRITICAL REQUIREMENTS:'' @ [CHR 0x0A] @
    ''- Product must be 100% accurate in shape, proportions, color, label, typography, and branding.'' @ [CHR 0x0A] @
    ''- Zero distortion, deformation, or product redesign.'' @ [CHR 0x0A] @
    ''- Clean separation between product and background.'' @ [CHR 0x0A] @
    ''- Professional studio lighting (soft, controlled, no harsh shadows).'' @ [CHR 0x0A] @
    ''- Editorial luxury advertising aesthetic.'' @ [CHR 0x0A] @
    ''- High-end commercial campaign quality. 4K resolution look.'' @ [CHR 0x0A]"

definition HUMAN_QUALITY_SUFFIX :: string where
  "HUMAN_QUALITY_SUFFIX =
    [CHR 0x0A] @ ''CRITICAL REQUIREMENTS:'' @ [CHR 0x0A] @
    ''- Subject must be 100% accurate in facial features, expression, and likeness.'' @ [CHR 0x0A] @
    ''- Zero distortion of anatomy, face, or hands.'' @ [CHR 0x0A] @
    ''- Skin texture must look natural and high-end retouch quality.'' @ [CHR 0x0A] @
    ''- Professional portrait lighting (Rembrandt, Butterfly, or Loop lighting).'' @ [CHR 0x0A] @
    ''- Editorial fashion aesthetic.'' @ [CHR 0x0A] @
    ''- High-end magazine cover quality. 4K resolution look.'' @ [CHR 0x0A]"

definition promptTemplate_HERO :: string where
  "promptTemplate_HERO =
    ''Create an iconic hero shot of the same [PRODUCT] with bold, striking composition. The subject must be 100% accurate'' @ [CHR 0xE2, CHR 0x80, CHR 0x94] @ ''no distortion. Position as the clear hero with commanding presence. Minimal supporting elements if any. Clean white or sophisticated neutral background. Professional studio lighting with dramatic key light. Ultra-sharp focus, high dynamic range. Premium luxury advertising aesthetic. This is the definitive hero shot for brand campaigns.''"

definition promptTemplate_MACRO :: string where
  "promptTemplate_MACRO =
    ''Create an extreme macro close-up detail shot of the same [PRODUCT] highlighting texture, finish, or fine details. Magnify the craftsmanship/features dramatically. Ultra-shallow depth of field with artistic blur. Raking light that emphasizes texture. The subject must be 100% accurate'' @ [CHR 0xE2, CHR 0x80, CHR 0x94] @ ''no distortion. Sharp focus on the detail, everything else artistically blurred. Premium luxury aesthetic.''"

definition promptTemplate_LIQUID :: string where
  "promptTemplate_LIQUID =
    ''Create a dynamic, energetic shot of the same [PRODUCT] with liquid splash, pour, or particle interaction. The subject must be 100% accurate and clearly recognizable'' @ [CHR 0xE2, CHR 0x80, CHR 0x94] @ ''positioned as the anchor within the dynamic interaction. The elements should surround, complement, or interact naturally. Captured mid-action. Professional studio lighting revealing both detail and movement energy. High-speed photography effect suggesting dynamism. Editorial luxury aesthetic.''"

definition promptTemplate_SCULPTURAL :: string where
  "promptTemplate_SCULPTURAL =
    ''Create a minimal sculptural arrangement of the same [PRODUCT] surrounded by abstract geometric forms (blocks, spheres, planes, clean shapes). The subject must be 100% accurate and clearly recognizable as the focal point. Composition is extremely minimal with prominent negative space. Geometric precision in arrangement. Professional studio lighting emphasizing form and shadow. Strong geometric shadows creating depth. Monochromatic or controlled color palette. Editorial, design-focused aesthetic.''"

definition promptTemplate_FLOATING :: string where
  "promptTemplate_FLOATING =
    ''Create a floating, weightless composition of the same [PRODUCT] appearing to levitate or float suspended. The subject must be 100% accurate and undistorted. Suggest innovation or ethereal quality through suspension in space. Supporting elements float around the subject creating sense of uplift and lightness. Professional studio lighting highlighting undersides and creating dimensional shadow suggesting ground distance. Clear or ethereal background. Contemporary, aspirational aesthetic.''"

definition promptTemplate_SENSORY :: string where
  "promptTemplate_SENSORY =
    ''Create a sensory, intimate close-up of the same [PRODUCT] emphasizing tactility and hyperreal authenticity. The subject must be 100% accurate. Frame the subject to suggest touchability and immediate desire. Close-up proximity making viewer feel connection. Features rendered in hyperreal detail. Warm, intimate studio lighting creating sensory appeal.''"

definition promptTemplate_COLOR :: string where
  "promptTemplate_COLOR =
    ''Create a color-driven conceptual scene of the same [PRODUCT] where the entire composition is built around the subject'' @ [CHR 0x27] @ ''s color palette. Extract and amplify the primary colors, building a harmonious scene around this palette. The composition may be abstract or conceptual, but always anchored by the subject as the focal point. Color harmony is paramount'' @ [CHR 0xE2, CHR 0x80, CHR 0x94] @ ''monochromatic, analogous, or color-blocked. Professional studio lighting emphasizing color saturation and richness.''"

definition promptTemplate_INGREDIENT :: string where
  "promptTemplate_INGREDIENT =
    ''Create an ingredient or component abstraction composition of the same [PRODUCT]. Extract and visually represent the key ingredients, materials, or elements that create this subject. Presentation is non-literal and symbolic'' @ [CHR 0xE2, CHR 0x80, CHR 0x94] @ ''a conceptual arrangement. The subject must be 100% accurate and positioned as the hero result of these component elements. Abstract, artistic, sophisticated. Editorial luxury aesthetic.''"

definition promptTemplate_SURREAL :: string where
  "promptTemplate_SURREAL =
    ''Create a surreal yet elegant fusion scene featuring the same [PRODUCT] merged or blended with imaginative, dream-like elements that feel impossible yet visually elegant. The subject must be 100% accurate and clearly recognizable, but seamlessly integrated into this surreal fusion. Refined surrealism'' @ [CHR 0xE2, CHR 0x80, CHR 0x94] @ ''not chaotic. Unexpected juxtapositions that create memorable visual impact. Grounded in photorealism. Rich color palette, saturated and dreamlike. Editorial luxury aesthetic.''"

definition promptTemplate_MCU :: string where
  "promptTemplate_MCU =
    ''Create a macro close-up shot of the same person showing extreme detail with professional studio lighting, sharp focus on facial features, and minimal background. Shallow depth of field with soft bokeh. Focus on eyes with perfect clarity. Skin texture and detail should be visible and flattering. Professional beauty photography style.''"

definition promptTemplate_MS :: string where
  "promptTemplate_MS =
    ''Create a medium shot showing the same person from waist up with clear detail. Professional portrait lighting setup with warm key light and subtle fill. Neutral background slightly out of focus. Subject should look confident and approachable. Studio photography quality with excellent skin tone and feature definition.''"

definition promptTemplate_OS :: string where
  "promptTemplate_OS =
    ''Create an over-the-shoulder perspective shot at approximately 45 degrees of the same person. Show the person'' @ [CHR 0x27] @ ''s shoulder partially in frame on one side while their face is visible in three-quarter view. Professional lighting that wraps around the subject. Background slightly blurred but contextual. Intimate and engaging composition.''"

definition promptTemplate_WS :: string where
  "promptTemplate_WS =
    ''Create a full-body wide shot showing the same person with surrounding environment visible and contributing to composition. Cinematic framing with balanced depth. The person should be positioned following rule of thirds. Professional lighting that complements the setting. Rich color and environmental detail visible.''"

definition promptTemplate_HA :: string where
  "promptTemplate_HA =
    ''Create a high-angle shot from above at 45-60 degree angle, looking down at the same person with dramatic perspective. The person should appear vulnerable or contemplative. Top-lighting that creates dimension. Subject in lower frame position with space above. Professional lighting that emphasizes the downward perspective.''"

definition promptTemplate_LA :: string where
  "promptTemplate_LA =
    ''Create a low-angle shot from below looking up at the same person with powerful dramatic perspective. The person should appear confident and commanding. Upward-tilted camera creates heroic composition. Subject fills upper frame with sky or ceiling visible below. Dramatic lighting that emphasizes power and dominance.''"

definition promptTemplate_P :: string where
  "promptTemplate_P =
    ''Create a pure profile view at 90-degree side angle showing the same person in clean silhouette. The profile should be sharp and well-defined showing complete side features from forehead to chin. Professional side-lighting that emphasizes facial structure and contours. One eye clearly visible with sharp focus. Neutral background creates clean profile separation.''"

definition promptTemplate_ThreeQ :: string where
  "promptTemplate_ThreeQ =
    ''Create a three-quarter angle view with the same person turned 45 degrees, showing approximately three-quarters of the face. Both eyes should be visible with natural dimensional appearance. Professional three-quarter lighting (Rembrandt style) with key light creating shadow triangle. Good cheekbone and jawline definition. Soft focus background. Warm skin tones and flattering facial positioning.''"

definition promptTemplate_B :: string where
  "promptTemplate_B =
    ''Create a back view shot showing the same person from behind with body posture clearly visible. Full back including shoulders and head visible. Environmental context visible and contributing to story. Hair detail and texture visible. Professional lighting that emphasizes form and creates dimension. Backlighting or side-lighting creates rim light on edges. The back view creates sense of movement, mystery, or contemplation.''"

fun SHOT_DEFINITIONS :: "ProductStyle \<Rightarrow> ShotDefinition" where
  "SHOT_DEFINITIONS HERO =
     \<lparr>sd_id = HERO, sd_label = ''Iconic Hero'',
      sd_description = ''Definitive showcase with bold composition and commanding presence.'',
      sd_emotional = ''Authority, Desire, Aspiration'',
      sd_promptTemplate = promptTemplate_HERO\<rparr>"
| "SHOT_DEFINITIONS MACRO =
     \<lparr>sd_id = MACRO, sd_label = ''Extreme Macro'',
      sd_description = ''High-magnification detail shot emphasizing texture and craftsmanship.'',
      sd_emotional = ''Intimacy, Precision, Quality'',
      sd_promptTemplate = promptTemplate_MACRO\<rparr>"
| "SHOT_DEFINITIONS LIQUID =
     \<lparr>sd_id = LIQUID, sd_label = ''Dynamic Energy'',
      sd_description = ''High-speed capture with liquid splashes or particle interactions.'',
      sd_emotional = ''Energy, Freshness, Motion'',
      sd_promptTemplate = promptTemplate_LIQUID\<rparr>"
| "SHOT_DEFINITIONS SCULPTURAL =
     \<lparr>sd_id = SCULPTURAL, sd_label = ''Sculptural Minimal'',
      sd_description = ''Geometric arrangement with abstract forms and strong shadows.'',
      sd_emotional = ''Balance, Modernity, Art'',
      sd_promptTemplate = promptTemplate_SCULPTURAL\<rparr>"
| "SHOT_DEFINITIONS FLOATING =
     \<lparr>sd_id = FLOATING, sd_label = ''Anti-Gravity'',
      sd_description = ''Levitating composition suggesting lightness and innovation.'',
      sd_emotional = ''Innovation, Future, Uplift'',
      sd_promptTemplate = promptTemplate_FLOATING\<rparr>"
| "SHOT_DEFINITIONS SENSORY =
     \<lparr>sd_id = SENSORY, sd_label = ''Sensory Tactile'',
      sd_description = ''Intimate framing emphasizing material authenticity and touch.'',
      sd_emotional = ''Connection, Warmth, Tactility'',
      sd_promptTemplate = promptTemplate_SENSORY\<rparr>"
| "SHOT_DEFINITIONS COLOR =
     \<lparr>sd_id = COLOR, sd_label = ''Color Concept'',
      sd_description = ''Scene built entirely around the subject'' @ [CHR 0x27] @ ''s color palette.'',
      sd_emotional = ''Harmony, Identity, Mood'',
      sd_promptTemplate = promptTemplate_COLOR\<rparr>"
| "SHOT_DEFINITIONS INGREDIENT =
     \<lparr>sd_id = INGREDIENT, sd_label = ''Component Story'',
      sd_description = ''Symbolic arrangement of ingredients or materials.'',
      sd_emotional = ''Integrity, Nature, Source'',
      sd_promptTemplate = promptTemplate_INGREDIENT\<rparr>"
| "SHOT_DEFINITIONS SURREAL =
     \<lparr>sd_id = SURREAL, sd_label = ''Surreal Fusion'',
      sd_description = ''Dream-like fusion of realism and imagination.'',
      sd_emotional = ''Wonder, Magic, Uniqueness'',
      sd_promptTemplate = promptTemplate_SURREAL\<rparr>"
| "SHOT_DEFINITIONS MCU =
     \<lparr>sd_id = MCU, sd_label = ''Macro Close Up'',
      sd_description = ''Extreme facial detail, eye focus, expression capture'',
      sd_emotional = ''Intimacy, Vulnerability, Detail'',
      sd_promptTemplate = promptTemplate_MCU\<rparr>"
| "SHOT_DEFINITIONS MS =
     \<lparr>sd_id = MS, sd_label = ''Medium Shot'',
      sd_description = ''Professional portrait standard, waist-up framing'',
      sd_emotional = ''Professional, Approachable, Confident'',
      sd_promptTemplate = promptTemplate_MS\<rparr>"
| "SHOT_DEFINITIONS OS =
     \<lparr>sd_id = OS, sd_label = ''Over the Shoulder'',
      sd_description = ''Intimate perspective, relationship focus, 45-degree angle'',
      sd_emotional = ''Intimate, Engaging, Relatable'',
      sd_promptTemplate = promptTemplate_OS\<rparr>"
| "SHOT_DEFINITIONS WS =
     \<lparr>sd_id = WS, sd_label = ''Wide Shot'',
      sd_description = ''Full-body with environment, storytelling composition'',
      sd_emotional = ''Contextual, Environmental, Storytelling'',
      sd_promptTemplate = promptTemplate_WS\<rparr>"
| "SHOT_DEFINITIONS HA =
     \<lparr>sd_id = HA, sd_label = ''High Angle'',
      sd_description = ''From above looking down, vulnerable mood, contemplative'',
      sd_emotional = ''Vulnerable, Introspective, Humble'',
      sd_promptTemplate = promptTemplate_HA\<rparr>"
| "SHOT_DEFINITIONS LA =
     \<lparr>sd_id = LA, sd_label = ''Low Angle'',
      sd_description = ''From below looking up, powerful/heroic mood, confident'',
      sd_emotional = ''Powerful, Heroic, Dominant'',
      sd_promptTemplate = promptTemplate_LA\<rparr>"
| "SHOT_DEFINITIONS P =
     \<lparr>sd_id = P, sd_label = ''Profile View'',
      sd_description = ''Pure 90-degree side view, classical silhouette'',
      sd_emotional = ''Classical, Defined, Structured'',
      sd_promptTemplate = promptTemplate_P\<rparr>"
| "SHOT_DEFINITIONS ThreeQ =
     \<lparr>sd_id = ThreeQ, sd_label = ''Three-Quarter View'',
      sd_description = ''Most popular angle, natural dimensional perspective'',
      sd_emotional = ''Natural, Dimensional, Personable'',
      sd_promptTemplate = promptTemplate_ThreeQ\<rparr>"
| "SHOT_DEFINITIONS B =
     \<lparr>sd_id = B, sd_label = ''Back View'',
      sd_description = ''Back view, hair detail, movement, story'',
      sd_emotional = ''Mystery, Intrigue, Motion'',
      sd_promptTemplate = promptTemplate_B\<rparr>"

definition ASPECT_RATIOS :: "AspectRatio list" where
  "ASPECT_RATIOS =
    [Ratio_1_1, Ratio_2_3, Ratio_3_2, Ratio_3_4, Ratio_4_3, Ratio_9_16, Ratio_16_9, Ratio_21_9]"

definition PRODUCT_STYLES :: "ProductStyle list" where
  "PRODUCT_STYLES =
    [HERO, MACRO, LIQUID, SCULPTURAL, FLOATING, SENSORY, COLOR, INGREDIENT, SURREAL]"

definition HUMAN_STYLES :: "ProductStyle list" where
  "HUMAN_STYLES = [MCU, MS, OS, WS, HA, LA, P, ThreeQ, B]"

text \<open>
  \<^verbatim>\<open>getShotDefinition(style, subjectType = SubjectType.PRODUCT)\<close>: the table entry of the
  style, its prompt template extended by the suffix of the style's own catalog.
  \<^verbatim>\<open>HUMAN_STYLES.includes(style)\<close> is membership in the list.
\<close>

definition getShotDefinition :: "ProductStyle \<Rightarrow> SubjectType \<Rightarrow> ShotDefinition" where
  "getShotDefinition style subjectType =
    (let def = SHOT_DEFINITIONS style;
         isHumanStyle = (style \<in> set HUMAN_STYLES);
         suffix = (if isHumanStyle then HUMAN_QUALITY_SUFFIX else PRODUCT_QUALITY_SUFFIX)
     in def\<lparr>sd_promptTemplate := sd_promptTemplate def @ suffix\<rparr>)"

subsection \<open>\<^verbatim>\<open>services/geminiService.ts\<close>: aspect ratios\<close>

text \<open>
  \<^verbatim>\<open>mapToGeminiAspectRatio\<close>: three ratios are replaced, the \<^verbatim>\<open>default\<close> branch returns the
  ratio it was given.
\<close>

fun mapToGeminiAspectRatio :: "AspectRatio \<Rightarrow> AspectRatio" where
  "mapToGeminiAspectRatio Ratio_2_3 = Ratio_3_4"
| "mapToGeminiAspectRatio Ratio_3_2 = Ratio_4_3"
| "mapToGeminiAspectRatio Ratio_21_9 = Ratio_16_9"
| "mapToGeminiAspectRatio ratio = ratio"

subsection \<open>Strings of the JavaScript runtime\<close>

text \<open>\<^verbatim>\<open>s.includes(needle)\<close>: the needle occurs as a contiguous part of \<open>s\<close>.\<close>

fun includes_str :: "string \<Rightarrow> string \<Rightarrow> bool" where
  "includes_str [] needle = (needle = [])"
| "includes_str (c # cs) needle = (take (length needle) (c # cs) = needle \<or> includes_str cs needle)"

text \<open>
  The replacement text of \<^verbatim>\<open>String.prototype.replace\<close> for a pattern without capture
  groups: \<^verbatim>\<open>$$\<close> stands for a dollar sign, \<^verbatim>\<open>$&\<close> for the matched text, \<^verbatim>\<open>$`\<close> for the part
  of the string before the match and \<^verbatim>\<open>$'\<close> for the part after it; every other character,
  also a dollar sign followed by anything else, stands for itself.
\<close>

fun expand_replacement :: "string \<Rightarrow> string \<Rightarrow> string \<Rightarrow> string \<Rightarrow> string" where
  "expand_replacement matched before after [] = []"
| "expand_replacement matched before after [c] = [c]"
| "expand_replacement matched before after (c1 # c2 # rest) =
     (if c1 = CHR ''$'' \<and> c2 = CHR ''$'' then
        CHR ''$'' # expand_replacement matched before after rest
      else if c1 = CHR ''$'' \<and> c2 = CHR ''&'' then
        matched @ expand_replacement matched before after rest
      else if c1 = CHR ''$'' \<and> c2 = CHR 0x60 then
        before @ expand_replacement matched before after rest
      else if c1 = CHR ''$'' \<and> c2 = CHR 0x27 then
        after @ expand_replacement matched before after rest
      else c1 # expand_replacement matched before after (c2 # rest))"

text \<open>
  \<^verbatim>\<open>s.replace(/pat/g, rep)\<close> for a pattern that matches one literal, non-empty text (here
  \<^verbatim>\<open>[PRODUCT]\<close> and the code fences of the analysis answer): every occurrence, found from
  left to right, is replaced by the expanded replacement text. \<open>before\<close> is the part of the
  string that has been passed.
\<close>

function replace_from :: "string \<Rightarrow> string \<Rightarrow> string \<Rightarrow> string \<Rightarrow> string" where
  "replace_from pat rep before [] = []"
| "replace_from pat rep before (c # cs) =
     (if pat \<noteq> [] \<and> take (length pat) (c # cs) = pat
      then expand_replacement pat before (drop (length pat) (c # cs)) rep @
           replace_from pat rep (before @ pat) (drop (length pat) (c # cs))
      else c # replace_from pat rep (before @ [c]) cs)"
  by pat_completeness auto
termination
  by (relation "measure (\<lambda>(pat, rep, before, s). length s)") auto

definition replace_all :: "string \<Rightarrow> string \<Rightarrow> string \<Rightarrow> string" where
  "replace_all pat rep s = replace_from pat rep [] s"

text \<open>
  \<^verbatim>\<open>s.trim()\<close>: the white space and line terminators of ECMAScript, each as the bytes of
  its UTF-8 encoding (U+0009 to U+000D, U+0020, U+00A0, U+1680, U+2000 to U+200A, U+2028,
  U+2029, U+202F, U+205F, U+3000, U+FEFF), are removed from both ends of the string.
\<close>

definition white_space :: "string list" where
  "white_space =
     [[CHR 0x09], [CHR 0x0A], [CHR 0x0B], [CHR 0x0C], [CHR 0x0D], [CHR 0x20],
      [CHR 0xC2, CHR 0xA0], [CHR 0xE1, CHR 0x9A, CHR 0x80],
      [CHR 0xE2, CHR 0x80, CHR 0x80], [CHR 0xE2, CHR 0x80, CHR 0x81],
      [CHR 0xE2, CHR 0x80, CHR 0x82], [CHR 0xE2, CHR 0x80, CHR 0x83],
      [CHR 0xE2, CHR 0x80, CHR 0x84], [CHR 0xE2, CHR 0x80, CHR 0x85],
      [CHR 0xE2, CHR 0x80, CHR 0x86], [CHR 0xE2, CHR 0x80, CHR 0x87],
      [CHR 0xE2, CHR 0x80, CHR 0x88], [CHR 0xE2, CHR 0x80, CHR 0x89],
      [CHR 0xE2, CHR 0x80, CHR 0x8A], [CHR 0xE2, CHR 0x80, CHR 0xA8],
      [CHR 0xE2, CHR 0x80, CHR 0xA9], [CHR 0xE2, CHR 0x80, CHR 0xAF],
      [CHR 0xE2, CHR 0x81, CHR 0x9F], [CHR 0xE3, CHR 0x80, CHR 0x80],
      [CHR 0xEF, CHR 0xBB, CHR 0xBF]]"

text \<open>Every leading occurrence of one of the given non-empty texts is removed.\<close>

function strip_prefixes :: "string list \<Rightarrow> string \<Rightarrow> string" where
  "strip_prefixes ws s =
     (case find (\<lambda>w. w \<noteq> [] \<and> take (length w) s = w) ws of
        Some w \<Rightarrow> strip_prefixes ws (drop (length w) s)
      | None \<Rightarrow> s)"
  by pat_completeness auto
termination
proof (relation "measure (\<lambda>(ws, s). length s)")
  show "wf (measure (\<lambda>(ws, s). length s))"
    by simp
next
  fix ws :: "string list" and s w :: string
  assume "find (\<lambda>w. w \<noteq> [] \<and> take (length w) s = w) ws = Some w"
  then have w: "w \<noteq> []" "take (length w) s = w"
    by (auto simp: find_Some_iff)
  from arg_cong [OF w(2), of length] have "min (length w) (length s) = length w"
    by simp
  then have "length w \<le> length s"
    by simp
  with w(1) show "((ws, drop (length w) s), (ws, s)) \<in> measure (\<lambda>(ws, s). length s)"
    by (cases w) auto
qed

declare strip_prefixes.simps [simp del]

definition trim :: "string \<Rightarrow> string" where
  "trim s = rev (strip_prefixes (map rev white_space) (rev (strip_prefixes white_space s)))"

text \<open>\<^verbatim>\<open>n.toString()\<close> for a natural number: its decimal digits.\<close>

function string_of_nat :: "nat \<Rightarrow> string" where
  "string_of_nat n =
     (if n < 10 then [''0123456789'' ! n]
      else string_of_nat (n div 10) @ [''0123456789'' ! (n mod 10)])"
  by pat_completeness auto
termination
  by (relation "measure id") auto

declare string_of_nat.simps [simp del]

text \<open>
  The string values of the members of the enum \<^verbatim>\<open>ProductStyle\<close> of \<^verbatim>\<open>types.ts\<close>: every
  member has its own name as value (\<^verbatim>\<open>HERO = 'HERO'\<close>, ..., \<^verbatim>\<open>ThreeQ = 'ThreeQ'\<close>,
  \<^verbatim>\<open>B = 'B'\<close>). The values are read where a style is printed into a text: a task id and one
  error message.
\<close>

fun ProductStyle_value :: "ProductStyle \<Rightarrow> string" where
  "ProductStyle_value HERO = ''HERO''"
| "ProductStyle_value MACRO = ''MACRO''"
| "ProductStyle_value LIQUID = ''LIQUID''"
| "ProductStyle_value SCULPTURAL = ''SCULPTURAL''"
| "ProductStyle_value FLOATING = ''FLOATING''"
| "ProductStyle_value SENSORY = ''SENSORY''"
| "ProductStyle_value COLOR = ''COLOR''"
| "ProductStyle_value INGREDIENT = ''INGREDIENT''"
| "ProductStyle_value SURREAL = ''SURREAL''"
| "ProductStyle_value MCU = ''MCU''"
| "ProductStyle_value MS = ''MS''"
| "ProductStyle_value OS = ''OS''"
| "ProductStyle_value WS = ''WS''"
| "ProductStyle_value HA = ''HA''"
| "ProductStyle_value LA = ''LA''"
| "ProductStyle_value P = ''P''"
| "ProductStyle_value ThreeQ = ''ThreeQ''"
| "ProductStyle_value B = ''B''"

subsection \<open>The generation backend as seen by \<^verbatim>\<open>geminiService.ts\<close>\<close>

text \<open>
  A call \<^verbatim>\<open>ai.models.generateContent(request)\<close> either rejects with an error object, of which
  the service reads \<^verbatim>\<open>status\<close>, \<^verbatim>\<open>code\<close> and \<^verbatim>\<open>message\<close>, or resolves to a response, of which
  it reads \<^verbatim>\<open>text\<close> and \<^verbatim>\<open>candidates?.[0]?.content?.parts\<close>. Of a part it reads
  \<^verbatim>\<open>inlineData.data\<close>; \<open>None\<close> stands for a part without \<^verbatim>\<open>inlineData\<close> or without \<^verbatim>\<open>data\<close>.
\<close>

record ApiError =
  err_status :: "int option"
  err_code :: "int option"
  err_message :: "string option"

record Part =
  inlineData_data :: "string option"

record GenerateContentResponse =
  resp_text :: "string option"
  resp_parts :: "Part list option"

datatype BackendReply = Rejects ApiError | Responds GenerateContentResponse

record GenerateRequest =
  req_model :: string
  req_inlineData :: "string option"
  req_text :: string
  req_aspectRatio :: "AspectRatio option"

text \<open>
  The backend: its reply to the \<open>k\<close>-th call (counted from 0) that one operation makes with
  a request.
\<close>

type_synonym Backend = "GenerateRequest \<Rightarrow> nat \<Rightarrow> BackendReply"

text \<open>\<^verbatim>\<open>new Error(message)\<close>.\<close>

definition new_Error :: "string \<Rightarrow> ApiError" where
  "new_Error msg = \<lparr>err_status = None, err_code = None, err_message = Some msg\<rparr>"

definition getBase64Data :: "string \<Rightarrow> string" where
  "getBase64Data base64String =
     (if CHR '','' \<in> set base64String
      then takeWhile (\<lambda>c. c \<noteq> CHR '','') (tl (dropWhile (\<lambda>c. c \<noteq> CHR '','') base64String))
      else base64String)"

text \<open>The loop over \<^verbatim>\<open>parts\<close>: the first part with non-empty inline data gives the data URL.\<close>

fun image_of_parts :: "string \<Rightarrow> Part list \<Rightarrow> string option" where
  "image_of_parts pre [] = None"
| "image_of_parts pre (part # parts) =
     (case inlineData_data part of
        Some d \<Rightarrow> if d \<noteq> [] then Some (pre @ d) else image_of_parts pre parts
      | None \<Rightarrow> image_of_parts pre parts)"

text \<open>
  The body of a \<^verbatim>\<open>try\<close> block around one backend call: the image, or what is thrown (the
  rejection of the backend, or the error raised for a response without image data).
\<close>

definition image_or_throw :: "string \<Rightarrow> BackendReply \<Rightarrow> ApiError + string" where
  "image_or_throw no_image reply =
     (case reply of
        Rejects error \<Rightarrow> Inl error
      | Responds response \<Rightarrow>
          (case resp_parts response of
             None \<Rightarrow> Inl (new_Error no_image)
           | Some parts \<Rightarrow>
               (case image_of_parts ''data:image/jpeg;base64,'' parts of
                  Some url \<Rightarrow> Inr url
                | None \<Rightarrow> Inl (new_Error no_image))))"

subsection \<open>\<^verbatim>\<open>generateShot\<close>: one task, with its retries\<close>

definition MAX_RETRIES :: nat where
  "MAX_RETRIES = 3"

text \<open>The classification in the \<^verbatim>\<open>catch\<close> block of \<^verbatim>\<open>generateShot\<close>.\<close>

definition isRateLimit :: "ApiError \<Rightarrow> bool" where
  "isRateLimit error =
     (err_status error = Some 429 \<or>
      err_code error = Some 429 \<or>
      (case err_message error of
         Some m \<Rightarrow> m \<noteq> [] \<and> includes_str m ''429'' | None \<Rightarrow> False) \<or>
      (case err_message error of
         Some m \<Rightarrow> m \<noteq> [] \<and> includes_str m ''RESOURCE_EXHAUSTED'' | None \<Rightarrow> False))"

text \<open>\<^verbatim>\<open>Math.pow(2, attempt + 1) * 1000\<close>, in milliseconds.\<close>

definition backoff_delay :: "nat \<Rightarrow> nat" where
  "backoff_delay attempt = 2 ^ (attempt + 1) * 1000"

text \<open>
  What one run of \<^verbatim>\<open>generateShot\<close> does besides returning: the number of backend calls it
  has made and the delays it has waited (\<^verbatim>\<open>await wait(delay)\<close>), in order.
\<close>

record GenerateTrace =
  tr_calls :: nat
  tr_delays :: "nat list"

definition generateShot_request ::
  "string \<Rightarrow> ShotDefinition \<Rightarrow> string \<Rightarrow> string \<Rightarrow> AspectRatio \<Rightarrow> GenerateRequest" where
  "generateShot_request sourceImageBase64 shotDef productName productDescription aspectRatio =
     (let cleanBase64 = getBase64Data sourceImageBase64;
          template = replace_all ''[PRODUCT]'' productName (sd_promptTemplate shotDef);
          fullPrompt = template @ [CHR 0x0A] @ ''  '' @ [CHR 0x0A] @
            ''  SUBJECT VISUAL DETAILS: '' @ productDescription @ ''.'' @ [CHR 0x0A] @ ''  '' @
            [CHR 0x0A] @
            ''  Ensure the subject matches these visual details exactly. High resolution, photorealistic.'';
          validAspectRatio = mapToGeminiAspectRatio aspectRatio
      in \<lparr>req_model = ''gemini-2.5-flash-image'', req_inlineData = Some cleanBase64,
          req_text = fullPrompt, req_aspectRatio = Some validAspectRatio\<rparr>)"

text \<open>
  The loop \<^verbatim>\<open>while (attempt <= MAX_RETRIES)\<close>, started with \<open>attempt = 0\<close>. \<open>call k\<close> is the
  reply of the backend to call number \<open>k\<close> of this run. The last line is the \<^verbatim>\<open>throw\<close> that
  follows the loop.
\<close>

function generateShot_loop ::
  "(nat \<Rightarrow> BackendReply) \<Rightarrow> ProductStyle \<Rightarrow> nat \<Rightarrow> GenerateTrace
     \<Rightarrow> (ApiError + string) \<times> GenerateTrace" where
  "generateShot_loop call shotId attempt tr =
     (if attempt \<le> MAX_RETRIES then
        (case image_or_throw ''No image data found in response'' (call (tr_calls tr)) of
           Inr url \<Rightarrow> (Inr url, tr\<lparr>tr_calls := tr_calls tr + 1\<rparr>)
         | Inl error \<Rightarrow>
             if isRateLimit error \<and> attempt < MAX_RETRIES
             then generateShot_loop call shotId (attempt + 1)
                    (tr\<lparr>tr_calls := tr_calls tr + 1,
                        tr_delays := tr_delays tr @ [backoff_delay attempt]\<rparr>)
             else (Inl error, tr\<lparr>tr_calls := tr_calls tr + 1\<rparr>))
      else (Inl (new_Error (''Failed to generate shot '' @ ProductStyle_value shotId @
                   '' after '' @ string_of_nat MAX_RETRIES @ '' retries'')), tr))"
  by pat_completeness auto
termination
  by (relation "measure (\<lambda>(call, shotId, attempt, tr). MAX_RETRIES + 1 - attempt)") auto

declare generateShot_loop.simps [simp del]

definition generateShot ::
  "Backend \<Rightarrow> string \<Rightarrow> ShotDefinition \<Rightarrow> string \<Rightarrow> string \<Rightarrow> AspectRatio
     \<Rightarrow> (ApiError + string) \<times> GenerateTrace" where
  "generateShot ai sourceImageBase64 shotDef productName productDescription aspectRatio =
     generateShot_loop
       (ai (generateShot_request sourceImageBase64 shotDef productName productDescription
              aspectRatio))
       (sd_id shotDef) 0 \<lparr>tr_calls = 0, tr_delays = []\<rparr>"

subsection \<open>\<^verbatim>\<open>editShot\<close>: one call, no retry\<close>

definition editShot_request ::
  "string \<Rightarrow> string \<Rightarrow> ShotDefinition \<Rightarrow> string \<Rightarrow> AspectRatio \<Rightarrow> GenerateRequest" where
  "editShot_request productName productDescription shotDef editPrompt aspectRatio =
     (let template = replace_all ''[PRODUCT]'' productName (sd_promptTemplate shotDef);
          fullPrompt = template @ [CHR 0x0A] @ ''  '' @ [CHR 0x0A] @
            ''  SUBJECT DETAILS: '' @ productDescription @ [CHR 0x0A] @ ''  '' @ [CHR 0x0A] @
            ''  MODIFICATION REQUEST: '' @ editPrompt @ [CHR 0x0A] @ ''  '' @ [CHR 0x0A] @
            ''  Apply this modification strictly while maintaining photorealism.'';
          validAspectRatio = mapToGeminiAspectRatio aspectRatio
      in \<lparr>req_model = ''gemini-2.5-flash-image'', req_inlineData = None,
          req_text = fullPrompt, req_aspectRatio = Some validAspectRatio\<rparr>)"

definition editShot ::
  "Backend \<Rightarrow> string \<Rightarrow> string \<Rightarrow> ShotDefinition \<Rightarrow> string \<Rightarrow> AspectRatio
     \<Rightarrow> ApiError + string" where
  "editShot ai productName productDescription shotDef editPrompt aspectRatio =
     image_or_throw ''No image returned from edit''
       (ai (editShot_request productName productDescription shotDef editPrompt aspectRatio) 0)"

subsection \<open>\<^verbatim>\<open>analyzeProduct\<close>\<close>

definition analysis_prompt :: string where
  "analysis_prompt =
    ''Analyze this image and provide a JSON output. STRICTLY JSON.'' @ [CHR 0x0A] @
    ''            1. Identify the specific product or subject name.'' @ [CHR 0x0A] @
    ''            2. Provide a concise but detailed visual description of the subject (colors, materials, features, pose if human).'' @ [CHR 0x0A] @
    ''            3. Identify the category.'' @ [CHR 0x0A] @
    ''            4. Detect if the subject is a human (true/false).'' @ [CHR 0x0A] @
    ''            5. Evaluate framing quality for a portrait/product shot: '' @ [CHR 0x27] @ ''ok'' @ [CHR 0x27] @ '', '' @ [CHR 0x27] @ ''too_far'' @ [CHR 0x27] @ '' (subject too small), '' @ [CHR 0x27] @ ''cut_off'' @ [CHR 0x27] @ '' (important parts missing), or '' @ [CHR 0x27] @ ''empty'' @ [CHR 0x27] @ ''.'' @ [CHR 0x0A] @
    ''            '' @ [CHR 0x0A] @
    ''            Output format:'' @ [CHR 0x0A] @
    ''            {'' @ [CHR 0x0A] @
    ''              '' @ [CHR 0x22] @ ''productName'' @ [CHR 0x22] @ '': '' @ [CHR 0x22] @ ''string'' @ [CHR 0x22] @ '','' @ [CHR 0x0A] @
    ''              '' @ [CHR 0x22] @ ''description'' @ [CHR 0x22] @ '': '' @ [CHR 0x22] @ ''string'' @ [CHR 0x22] @ '','' @ [CHR 0x0A] @
    ''              '' @ [CHR 0x22] @ ''category'' @ [CHR 0x22] @ '': '' @ [CHR 0x22] @ ''string'' @ [CHR 0x22] @ '','' @ [CHR 0x0A] @
    ''              '' @ [CHR 0x22] @ ''confidence'' @ [CHR 0x22] @ '': number,'' @ [CHR 0x0A] @
    ''              '' @ [CHR 0x22] @ ''isHuman'' @ [CHR 0x22] @ '': boolean,'' @ [CHR 0x0A] @
    ''              '' @ [CHR 0x22] @ ''framingQuality'' @ [CHR 0x22] @ '': '' @ [CHR 0x22] @ ''string'' @ [CHR 0x22] @ '','' @ [CHR 0x0A] @
    ''              '' @ [CHR 0x22] @ ''recommendations'' @ [CHR 0x22] @ '': ['' @ [CHR 0x22] @ ''string'' @ [CHR 0x22] @ '']'' @ [CHR 0x0A] @
    ''            }''"

definition analyzeProduct_request :: "string \<Rightarrow> GenerateRequest" where
  "analyzeProduct_request sourceImageBase64 =
     \<lparr>req_model = ''gemini-2.5-flash'', req_inlineData = Some (getBase64Data sourceImageBase64),
      req_text = analysis_prompt, req_aspectRatio = None\<rparr>"

text \<open>
  The value \<^verbatim>\<open>JSON.parse\<close> returns, as far as \<^verbatim>\<open>analyzeProduct\<close> reads it: seven properties,
  each absent (\<^verbatim>\<open>undefined\<close>) or of the type that \<^verbatim>\<open>ProductAnalysisResult\<close> declares for it;
  a JSON number is a rational. A parsed number, string, boolean or array is a value none of
  whose seven properties is present. A property of another type than the declared one, and
  a number too large for a double (\<^verbatim>\<open>Infinity\<close>), are outside this model. \<^verbatim>\<open>JSON.parse\<close> itself is a parameter: a text is
  rejected (\<^verbatim>\<open>SyntaxError\<close>), or is \<^verbatim>\<open>null\<close>, or gives a value.
\<close>

record AnalysisJson =
  aj_productName :: "string option"
  aj_description :: "string option"
  aj_category :: "string option"
  aj_confidence :: "rat option"
  aj_isHuman :: "bool option"
  aj_framingQuality :: "string option"
  aj_recommendations :: "string list option"

datatype Parsed = SyntaxError | JsonNull | JsonValue AnalysisJson

record ProductAnalysisResult =
  ar_productName :: string
  ar_description :: string
  ar_category :: string
  ar_confidence :: rat
  ar_isHuman :: "bool option"
  ar_framingQuality :: "string option"
  ar_recommendations :: "string list"

text \<open>What can be thrown inside \<^verbatim>\<open>analyzeProduct\<close>.\<close>

datatype AnalysisFailure = BackendFailure ApiError | ParseFailure | PropertyOfNull

text \<open>\<^verbatim>\<open>x || d\<close> for an optional string and for an optional number.\<close>

definition or_string :: "string option \<Rightarrow> string \<Rightarrow> string" where
  "or_string x d = (case x of Some s \<Rightarrow> if s \<noteq> [] then s else d | None \<Rightarrow> d)"

definition or_number :: "rat option \<Rightarrow> rat \<Rightarrow> rat" where
  "or_number x d = (case x of Some n \<Rightarrow> if n \<noteq> 0 then n else d | None \<Rightarrow> d)"

text \<open>
  The body of the inner \<^verbatim>\<open>try\<close>: \<^verbatim>\<open>JSON.parse\<close> may throw, and reading a property of
  \<^verbatim>\<open>null\<close> throws.
\<close>

definition analysis_of_text ::
  "(string \<Rightarrow> Parsed) \<Rightarrow> string \<Rightarrow> AnalysisFailure + ProductAnalysisResult" where
  "analysis_of_text JSON_parse jsonStr =
     (case JSON_parse jsonStr of
        SyntaxError \<Rightarrow> Inl ParseFailure
      | JsonNull \<Rightarrow> Inl PropertyOfNull
      | JsonValue result \<Rightarrow>
          Inr \<lparr>ar_productName = or_string (aj_productName result) ''Subject'',
               ar_description = or_string (aj_description result) ''A detailed shot of the subject.'',
               ar_category = or_string (aj_category result) ''general'',
               ar_confidence = or_number (aj_confidence result) (8 / 10),
               ar_isHuman = aj_isHuman result,
               ar_framingQuality = Some (or_string (aj_framingQuality result) ''ok''),
               ar_recommendations =
                 (case aj_recommendations result of Some r \<Rightarrow> r | None \<Rightarrow> [])\<rparr>)"

text \<open>The object literal that each of the two \<^verbatim>\<open>catch\<close> blocks returns.\<close>

definition fallback_analysis :: ProductAnalysisResult where
  "fallback_analysis =
     \<lparr>ar_productName = ''Subject'', ar_description = ''A detailed shot of the subject.'',
      ar_category = ''general'', ar_confidence = 0, ar_isHuman = None,
      ar_framingQuality = None, ar_recommendations = []\<rparr>"

text \<open>
  \<^verbatim>\<open>jsonStr\<close>: the text of the response (\<^verbatim>\<open>response.text || ''\<close>) without its code fences,
  trimmed.
\<close>

definition response_jsonStr :: "GenerateContentResponse \<Rightarrow> string" where
  "response_jsonStr response =
     (let text = (case resp_text response of
                    Some t \<Rightarrow> if t \<noteq> [] then t else [] | None \<Rightarrow> []);
          fence = [CHR 0x60, CHR 0x60, CHR 0x60]
      in trim (replace_all fence [] (replace_all (fence @ ''json'') [] text)))"

text \<open>
  The body of the outer \<^verbatim>\<open>try\<close>: the backend call may reject; the inner \<^verbatim>\<open>try\<close> returns the
  parsed result, and its \<^verbatim>\<open>catch\<close> returns the fallback.
\<close>

definition analyzeProduct_body ::
  "Backend \<Rightarrow> (string \<Rightarrow> Parsed) \<Rightarrow> string \<Rightarrow> AnalysisFailure + ProductAnalysisResult" where
  "analyzeProduct_body ai JSON_parse sourceImageBase64 =
     (case ai (analyzeProduct_request sourceImageBase64) 0 of
        Rejects error \<Rightarrow> Inl (BackendFailure error)
      | Responds response \<Rightarrow>
          (case analysis_of_text JSON_parse (response_jsonStr response) of
             Inr result \<Rightarrow> Inr result
           | Inl e \<Rightarrow> Inr fallback_analysis))"

text \<open>
  \<^verbatim>\<open>analyzeProduct\<close>: the outer \<^verbatim>\<open>catch\<close> returns the fallback as well. \<open>Inl\<close> would be an
  exception that reaches the caller.
\<close>

definition analyzeProduct ::
  "Backend \<Rightarrow> (string \<Rightarrow> Parsed) \<Rightarrow> string \<Rightarrow> AnalysisFailure + ProductAnalysisResult" where
  "analyzeProduct ai JSON_parse sourceImageBase64 =
     (case analyzeProduct_body ai JSON_parse sourceImageBase64 of
        Inr result \<Rightarrow> Inr result
      | Inl error \<Rightarrow> Inr fallback_analysis)"

subsection \<open>Generated images and project snapshots\<close>

text \<open>
  A generated image as the application holds it (\<^verbatim>\<open>GeneratedImage\<close> of \<^verbatim>\<open>types.ts\<close>). The
  entries of \<^verbatim>\<open>generatedShots\<close> are built by object spreads, so every property may be
  absent. \<open>no_properties\<close> is the object that the spread of \<^verbatim>\<open>undefined\<close> gives.
\<close>

record GeneratedImage =
  gi_id :: "string option"
  gi_shotType :: "ProductStyle option"
  gi_imageUrl :: "string option"
  gi_isLoading :: "bool option"
  gi_timestamp :: "nat option"
  gi_subjectType :: "SubjectType option"
  gi_error :: "string option"
  gi_customPrompt :: "string option"

definition no_properties :: GeneratedImage where
  "no_properties =
     \<lparr>gi_id = None, gi_shotType = None, gi_imageUrl = None, gi_isLoading = None,
      gi_timestamp = None, gi_subjectType = None, gi_error = None, gi_customPrompt = None\<rparr>"

definition spread :: "GeneratedImage option \<Rightarrow> GeneratedImage" where
  "spread obj = (case obj of Some shot \<Rightarrow> shot | None \<Rightarrow> no_properties)"

text \<open>\<^verbatim>\<open>Record<string, GeneratedImage>\<close>, keyed by the style.\<close>

type_synonym Shots = "ProductStyle \<Rightarrow> GeneratedImage option"

record ProjectHistory =
  ph_id :: string
  ph_timestamp :: nat
  ph_sourceImage :: string
  ph_productName :: string
  ph_productDescription :: string
  ph_productCategory :: string
  ph_subjectType :: SubjectType
  ph_generatedShots :: Shots

subsection \<open>\<^verbatim>\<open>services/historyService.ts\<close>\<close>

text \<open>
  The object store \<^verbatim>\<open>projects\<close> with \<^verbatim>\<open>keyPath: 'id'\<close>: one record per key. \<^verbatim>\<open>db.put\<close> stores
  the record under its \<^verbatim>\<open>id\<close>, in place of a record with that key. Opening the database or
  the \<^verbatim>\<open>put\<close> may fail; \<^verbatim>\<open>saveProject\<close> catches the failure and logs it.
\<close>

type_synonym Store = "string \<Rightarrow> ProjectHistory option"

datatype PutOutcome = PutDone | PutFails

definition saveProject :: "PutOutcome \<Rightarrow> ProjectHistory \<Rightarrow> Store \<Rightarrow> Store" where
  "saveProject outcome project db =
     (case outcome of PutDone \<Rightarrow> db(ph_id project \<mapsto> project) | PutFails \<Rightarrow> db)"

subsection \<open>\<^verbatim>\<open>App.tsx\<close>: state and handlers\<close>

text \<open>
  The state of the component. A handler is a function from the state to the state; a handler
  that awaits a service is split where it awaits, so that other handlers can run in between.
  A handler reads the variables of the render in which it was created: where that matters it
  takes this closure \<open>c\<close> beside the state \<open>s\<close> that its updater functions receive.
\<close>

record App =
  sourceImage :: "string option"
  isGenerating :: bool
  isDetecting :: bool
  productName :: string
  productDescription :: string
  productCategory :: string
  subjectType :: SubjectType
  aspectRatio :: AspectRatio
  generatedShots :: Shots
  selectedShot :: "GeneratedImage option"
  selectedShotIds :: "ProductStyle set"
  detectionWarning :: "string option"
  currentProjectId :: "string option"

text \<open>A string that is neither \<^verbatim>\<open>null\<close>, \<^verbatim>\<open>undefined\<close> nor empty.\<close>

definition truthy :: "string option \<Rightarrow> bool" where
  "truthy x = (case x of Some s \<Rightarrow> s \<noteq> [] | None \<Rightarrow> False)"

definition activeStyles :: "SubjectType \<Rightarrow> ProductStyle list" where
  "activeStyles type = (if type = HUMAN then HUMAN_STYLES else PRODUCT_STYLES)"

text \<open>\<^verbatim>\<open>handleImageSelect\<close> up to the call of the analyzer, and after it.\<close>

definition handleImageSelect_begin :: "string \<Rightarrow> App \<Rightarrow> App" where
  "handleImageSelect_begin base64 s =
     s\<lparr>sourceImage := Some base64, generatedShots := Map.empty, selectedShotIds := {},
       currentProjectId := None, subjectType := PRODUCT, detectionWarning := None,
       isDetecting := True\<rparr>"

definition handleImageSelect_end :: "ProductAnalysisResult \<Rightarrow> App \<Rightarrow> App" where
  "handleImageSelect_end analysis s =
     (let s1 = s\<lparr>productName := ar_productName analysis,
                  productDescription := ar_description analysis,
                  productCategory := ar_category analysis\<rparr>;
          s2 = (if ar_isHuman analysis = Some True then
                  (if ar_framingQuality analysis = Some ''too_far'' then
                     s1\<lparr>detectionWarning := Some
                       ''Subject appears too far away. For best portrait results, use a closer shot.''\<rparr>
                   else if ar_framingQuality analysis = Some ''cut_off'' then
                     s1\<lparr>detectionWarning := Some
                       (''Subject'' @ [CHR 0x27] @ ''s face or key features appear cut off. Please use a well-framed photo.'')\<rparr>
                   else if ar_framingQuality analysis = Some ''empty'' then
                     s1\<lparr>detectionWarning := Some
                       ''No clear subject detected. Please try another photo.''\<rparr>
                   else s1)
                else s1)
      in s2\<lparr>isDetecting := False\<rparr>)"

definition handleImageSelect :: "Backend \<Rightarrow> (string \<Rightarrow> Parsed) \<Rightarrow> string \<Rightarrow> App \<Rightarrow> App" where
  "handleImageSelect ai JSON_parse base64 s =
     (case analyzeProduct ai JSON_parse base64 of
        Inr analysis \<Rightarrow> handleImageSelect_end analysis (handleImageSelect_begin base64 s)
      | Inl e \<Rightarrow> (handleImageSelect_begin base64 s)\<lparr>isDetecting := False\<rparr>)"

text \<open>The \<^verbatim>\<open>onSelect\<close> of the subject type selector.\<close>

definition onSelect :: "SubjectType \<Rightarrow> App \<Rightarrow> App" where
  "onSelect type s =
     s\<lparr>subjectType := type,
       generatedShots := (if type \<noteq> subjectType s then Map.empty else generatedShots s)\<rparr>"

text \<open>
  \<^verbatim>\<open>saveToHistory(shots, pid)\<close>, called from a closure \<open>c\<close>: the snapshot takes the source
  image, the subject and the mode from the closure and the shots from the argument.
\<close>

definition saveToHistory ::
  "App \<Rightarrow> PutOutcome \<Rightarrow> nat \<Rightarrow> Shots \<Rightarrow> string option \<Rightarrow> App \<times> Store \<Rightarrow> App \<times> Store" where
  "saveToHistory c outcome now shots pid sdb =
     (case sourceImage c of
        None \<Rightarrow> sdb
      | Some src \<Rightarrow>
          if src = [] then sdb
          else
            (let projectId = (case pid of
                                Some p \<Rightarrow> if p \<noteq> [] then p else string_of_nat now
                              | None \<Rightarrow> string_of_nat now);
                 project = \<lparr>ph_id = projectId, ph_timestamp = now, ph_sourceImage = src,
                            ph_productName = productName c,
                            ph_productDescription = productDescription c,
                            ph_productCategory = productCategory c,
                            ph_subjectType = subjectType c, ph_generatedShots = shots\<rparr>;
                 db = saveProject outcome project (snd sdb)
             in if truthy pid then (fst sdb, db)
                else ((fst sdb)\<lparr>currentProjectId := Some projectId\<rparr>, db)))"

text \<open>
  \<^verbatim>\<open>handleGenerate\<close> up to the start of the queue: the project id in use, and the batch of
  loading entries that replaces \<^verbatim>\<open>generatedShots\<close>. The \<^verbatim>\<open>forEach\<close> is a fold over the styles.
\<close>

definition loadingShot :: "nat \<Rightarrow> SubjectType \<Rightarrow> ProductStyle \<Rightarrow> GeneratedImage" where
  "loadingShot now subject type =
     \<lparr>gi_id = Some (ProductStyle_value type @ ''-'' @ string_of_nat now),
      gi_shotType = Some type, gi_imageUrl = Some [], gi_isLoading = Some True,
      gi_timestamp = Some now, gi_subjectType = Some subject, gi_error = None,
      gi_customPrompt = None\<rparr>"

definition initialShots :: "nat \<Rightarrow> SubjectType \<Rightarrow> ProductStyle list \<Rightarrow> Shots" where
  "initialShots now subject targetShots =
     fold (\<lambda>type shots. shots(type \<mapsto> loadingShot now subject type)) targetShots Map.empty"

definition activeProjectId :: "nat \<Rightarrow> App \<Rightarrow> string" where
  "activeProjectId now s =
     (case currentProjectId s of
        Some p \<Rightarrow> if p \<noteq> [] then p else string_of_nat now
      | None \<Rightarrow> string_of_nat now)"

definition handleGenerate_begin :: "nat \<Rightarrow> App \<Rightarrow> App" where
  "handleGenerate_begin now s =
     (if \<not> truthy (sourceImage s) then s
      else
        (let s1 = s\<lparr>isGenerating := True, selectedShotIds := {}\<rparr>;
             s2 = (if truthy (currentProjectId s) then s1
                   else s1\<lparr>currentProjectId := Some (activeProjectId now s)\<rparr>);
             targetShots = activeStyles (subjectType s)
         in s2\<lparr>generatedShots := initialShots now (subjectType s) targetShots\<rparr>))"

text \<open>
  The two updater functions with which a task of the queue settles: they receive the
  state \<open>prev\<close> that is current when they run.
\<close>

definition shot_succeeded :: "ProductStyle \<Rightarrow> string \<Rightarrow> App \<Rightarrow> App" where
  "shot_succeeded type imageUrl s =
     s\<lparr>generatedShots := (generatedShots s)(type \<mapsto>
         (spread (generatedShots s type))\<lparr>gi_imageUrl := Some imageUrl,
                                          gi_isLoading := Some False\<rparr>)\<rparr>"

definition shot_failed :: "ProductStyle \<Rightarrow> App \<Rightarrow> App" where
  "shot_failed type s =
     s\<lparr>generatedShots := (generatedShots s)(type \<mapsto>
         (spread (generatedShots s type))\<lparr>gi_isLoading := Some False,
                                          gi_error := Some ''Failed to generate''\<rparr>)\<rparr>"

text \<open>
  One task of the queue (the function mapped over \<^verbatim>\<open>batch\<close>): the closure \<open>c\<close> of the
  \<^verbatim>\<open>handleGenerate\<close> that launched it supplies the arguments of \<^verbatim>\<open>generateShot\<close>, and the
  settlement is applied to the state \<open>s\<close> current at that time. \<open>shotRequest\<close> is the
  request that \<^verbatim>\<open>generateShot\<close> builds from these arguments, on every attempt of the task.
\<close>

definition shotRequest :: "string \<Rightarrow> App \<Rightarrow> ProductStyle \<Rightarrow> GenerateRequest" where
  "shotRequest src c type =
     generateShot_request src (getShotDefinition type (subjectType c)) (productName c)
       (productDescription c) (aspectRatio c)"

definition processShot ::
  "Backend \<Rightarrow> string \<Rightarrow> App \<Rightarrow> ProductStyle \<Rightarrow> App \<Rightarrow> App \<times> GenerateTrace" where
  "processShot ai src c type s =
     (let shotDef = getShotDefinition type (subjectType c);
          run = generateShot ai src shotDef (productName c) (productDescription c)
                  (aspectRatio c)
      in (case fst run of
            Inr imageUrl \<Rightarrow> shot_succeeded type imageUrl s
          | Inl error \<Rightarrow> shot_failed type s,
          snd run))"

text \<open>
  \<^verbatim>\<open>processQueue\<close> with \<^verbatim>\<open>CONCURRENCY = 1\<close>, when no other handler runs in between: one
  style is taken from the queue, its task is awaited, and the rest follows. The pause of
  1000 ms between two rounds changes no state.
\<close>

fun processQueue :: "Backend \<Rightarrow> string \<Rightarrow> App \<Rightarrow> ProductStyle list \<Rightarrow> App \<Rightarrow> App" where
  "processQueue ai src c [] s = s"
| "processQueue ai src c (type # queue) s =
     processQueue ai src c queue (fst (processShot ai src c type s))"

text \<open>
  \<^verbatim>\<open>handleGenerate\<close>, run without interruption: the batch is created, the queue is worked
  off, the final state is saved under the project id in use.
\<close>

definition handleGenerate ::
  "Backend \<Rightarrow> PutOutcome \<Rightarrow> nat \<Rightarrow> nat \<Rightarrow> App \<times> Store \<Rightarrow> App \<times> Store" where
  "handleGenerate ai outcome now now' sdb =
     (let c = fst sdb in
      case sourceImage c of
        None \<Rightarrow> sdb
      | Some src \<Rightarrow>
          if src = [] then sdb
          else
            (let s1 = handleGenerate_begin now c;
                 s2 = processQueue ai src c (activeStyles (subjectType c)) s1;
                 saved = saveToHistory c outcome now' (generatedShots s2)
                           (Some (activeProjectId now c)) (s2, snd sdb)
             in ((fst saved)\<lparr>isGenerating := False\<rparr>, snd saved)))"

text \<open>
  \<^verbatim>\<open>handleEditShot(type, customPrompt)\<close>: the guard and the loading state; the settlement
  after a successful \<^verbatim>\<open>editShot\<close>, which saves the new map; the settlement after a failure.
\<close>

definition handleEditShot_begin :: "ProductStyle \<Rightarrow> App \<Rightarrow> App \<Rightarrow> (App \<times> GeneratedImage) option" where
  "handleEditShot_begin type c s =
     (case generatedShots c type of
        None \<Rightarrow> None
      | Some currentShot \<Rightarrow>
          if \<not> truthy (gi_imageUrl currentShot) then None
          else Some (s\<lparr>generatedShots := (generatedShots s)(type \<mapsto>
                        (spread (generatedShots s type))\<lparr>gi_isLoading := Some True,
                                                         gi_error := None\<rparr>)\<rparr>,
                     currentShot))"

definition handleEditShot_succeeded ::
  "App \<Rightarrow> PutOutcome \<Rightarrow> nat \<Rightarrow> ProductStyle \<Rightarrow> string \<Rightarrow> GeneratedImage \<Rightarrow> string
     \<Rightarrow> App \<times> Store \<Rightarrow> App \<times> Store" where
  "handleEditShot_succeeded c outcome now type customPrompt currentShot imageUrl sdb =
     (let updatedShot = currentShot\<lparr>gi_imageUrl := Some imageUrl, gi_isLoading := Some False,
                                    gi_timestamp := Some now,
                                    gi_customPrompt := Some customPrompt\<rparr>;
          next = (generatedShots (fst sdb))(type \<mapsto> updatedShot);
          saved = saveToHistory c outcome now next (currentProjectId c)
                    ((fst sdb)\<lparr>generatedShots := next\<rparr>, snd sdb)
      in (case selectedShot c of
            Some shown \<Rightarrow>
              if gi_shotType shown = Some type
              then ((fst saved)\<lparr>selectedShot := Some updatedShot\<rparr>, snd saved)
              else saved
          | None \<Rightarrow> saved))"

definition handleEditShot_failed :: "ProductStyle \<Rightarrow> App \<Rightarrow> App" where
  "handleEditShot_failed type s =
     s\<lparr>generatedShots := (generatedShots s)(type \<mapsto>
         (spread (generatedShots s type))\<lparr>gi_isLoading := Some False,
                                          gi_error := Some ''Edit failed''\<rparr>)\<rparr>"

definition handleEditShot ::
  "Backend \<Rightarrow> PutOutcome \<Rightarrow> nat \<Rightarrow> ProductStyle \<Rightarrow> string \<Rightarrow> App \<times> Store \<Rightarrow> App \<times> Store" where
  "handleEditShot ai outcome now type customPrompt sdb =
     (let c = fst sdb in
      case handleEditShot_begin type c c of
        None \<Rightarrow> sdb
      | Some (s1, currentShot) \<Rightarrow>
          (case editShot ai (productName c) (productDescription c)
                  (getShotDefinition type (subjectType c)) customPrompt (aspectRatio c) of
             Inr imageUrl \<Rightarrow>
               handleEditShot_succeeded c outcome now type customPrompt currentShot imageUrl
                 (s1, snd sdb)
           | Inl error \<Rightarrow> (handleEditShot_failed type s1, snd sdb)))"

subsection \<open>Concrete runs\<close>

text \<open>
  The state of the component when it is mounted (the initial values of its \<^verbatim>\<open>useState\<close>
  calls), two source images, two errors and two responses of the backend, and backends
  that answer every request alike.
\<close>

definition initial_app :: App where
  "initial_app =
     \<lparr>sourceImage = None, isGenerating = False, isDetecting = False,
      productName = ''product'', productDescription = [], productCategory = [],
      subjectType = PRODUCT, aspectRatio = Ratio_3_4, generatedShots = Map.empty,
      selectedShot = None, selectedShotIds = {}, detectionWarning = None,
      currentProjectId = None\<rparr>"

definition image_X :: string where
  "image_X = ''data:image/jpeg;base64,WFhY''"

definition image_Y :: string where
  "image_Y = ''data:image/jpeg;base64,WVlZ''"

definition quota_error :: ApiError where
  "quota_error =
     \<lparr>err_status = Some 429, err_code = None, err_message = Some ''RESOURCE_EXHAUSTED''\<rparr>"

definition server_error :: ApiError where
  "server_error =
     \<lparr>err_status = Some 500, err_code = None, err_message = Some ''Internal error''\<rparr>"

definition image_response :: GenerateContentResponse where
  "image_response =
     \<lparr>resp_text = None,
      resp_parts = Some [\<lparr>inlineData_data = None\<rparr>, \<lparr>inlineData_data = Some ''QUJD''\<rparr>]\<rparr>"

definition always_rate_limited :: Backend where
  "always_rate_limited = (\<lambda>request k. Rejects quota_error)"

definition rate_limited_thrice :: Backend where
  "rate_limited_thrice =
     (\<lambda>request k. if k < 3 then Rejects quota_error else Responds image_response)"

definition always_server_error :: Backend where
  "always_server_error = (\<lambda>request k. Rejects server_error)"

definition always_image :: Backend where
  "always_image = (\<lambda>request k. Responds image_response)"

text \<open>
  A response whose text is not JSON and a response whose text is the empty object \<^verbatim>\<open>{}\<close>
  between code fences, a backend for each, and \<^verbatim>\<open>JSON.parse\<close> on the texts of the runs: it
  accepts \<^verbatim>\<open>null\<close> and \<^verbatim>\<open>{}\<close> and rejects the rest.
\<close>

definition prose_response :: GenerateContentResponse where
  "prose_response = \<lparr>resp_text = Some ''I cannot analyze this image.'', resp_parts = None\<rparr>"

definition fenced_object_response :: GenerateContentResponse where
  "fenced_object_response =
     \<lparr>resp_text = Some ([CHR 0x60, CHR 0x60, CHR 0x60] @ ''json'' @ [CHR 0x0A] @ ''{}'' @
                          [CHR 0x0A] @ [CHR 0x60, CHR 0x60, CHR 0x60] @ [CHR 0x0A]),
      resp_parts = None\<rparr>"

definition always_fenced_object :: Backend where
  "always_fenced_object = (\<lambda>request k. Responds fenced_object_response)"

definition always_prose :: Backend where
  "always_prose = (\<lambda>request k. Responds prose_response)"

definition parse_run :: "string \<Rightarrow> Parsed" where
  "parse_run jsonStr =
     (if jsonStr = ''null'' then JsonNull
      else if jsonStr = ''{}'' then
        JsonValue \<lparr>aj_productName = None, aj_description = None, aj_category = None,
                   aj_confidence = None, aj_isHuman = None, aj_framingQuality = None,
                   aj_recommendations = None\<rparr>
      else SyntaxError)"

text \<open>
  The image \<open>image_X\<close> is selected and a batch is started at time 1000: \<open>closure_A\<close> is the
  state that the handler of this run has captured, \<open>batch_A\<close> the state it leaves. Then the
  image \<open>image_Y\<close> is selected and a batch is started at time 2000: \<open>batch_B\<close>.
\<close>

definition closure_A :: App where
  "closure_A = handleImageSelect_begin image_X initial_app"

definition batch_A :: App where
  "batch_A = handleGenerate_begin 1000 closure_A"

definition batch_B :: App where
  "batch_B = handleGenerate_begin 2000 (handleImageSelect_begin image_Y batch_A)"

text \<open>
  A batch for \<open>image_X\<close> that is generated without interruption by a backend that returns an
  image at once, and saved at time 1500 into an empty store; then an edit of \<open>HERO\<close> at time
  3000. Two snapshots with one id.
\<close>

definition persisted_A :: "App \<times> Store" where
  "persisted_A = handleGenerate always_image PutDone 1000 1500 (closure_A, Map.empty)"

definition edited_A :: "App \<times> Store" where
  "edited_A = handleEditShot always_image PutDone 3000 HERO ''Make the background darker.'' persisted_A"

definition snapshot_early :: ProjectHistory where
  "snapshot_early =
     \<lparr>ph_id = ''1000'', ph_timestamp = 1500, ph_sourceImage = image_X,
      ph_productName = ''product'', ph_productDescription = [], ph_productCategory = [],
      ph_subjectType = PRODUCT, ph_generatedShots = initialShots 1000 PRODUCT PRODUCT_STYLES\<rparr>"

definition snapshot_late :: ProjectHistory where
  "snapshot_late = snapshot_early\<lparr>ph_timestamp := 3000, ph_generatedShots := Map.empty\<rparr>"

section \<open>Auxiliary facts\<close>

lemma generateShot_loop_retry:
  assumes "attempt < MAX_RETRIES"
    and "image_or_throw ''No image data found in response'' (call (tr_calls tr)) = Inl e"
    and "isRateLimit e"
  shows "generateShot_loop call shotId attempt tr =
         generateShot_loop call shotId (attempt + 1)
           (tr\<lparr>tr_calls := tr_calls tr + 1, tr_delays := tr_delays tr @ [backoff_delay attempt]\<rparr>)"
  using assms by (subst generateShot_loop.simps) simp

lemma generateShot_loop_give_up:
  assumes "attempt \<le> MAX_RETRIES"
    and "image_or_throw ''No image data found in response'' (call (tr_calls tr)) = Inl e"
    and "\<not> isRateLimit e \<or> attempt = MAX_RETRIES"
  shows "generateShot_loop call shotId attempt tr = (Inl e, tr\<lparr>tr_calls := tr_calls tr + 1\<rparr>)"
  using assms by (subst generateShot_loop.simps) auto

lemma generateShot_loop_image:
  assumes "attempt \<le> MAX_RETRIES"
    and "image_or_throw ''No image data found in response'' (call (tr_calls tr)) = Inr url"
  shows "generateShot_loop call shotId attempt tr = (Inr url, tr\<lparr>tr_calls := tr_calls tr + 1\<rparr>)"
  using assms by (subst generateShot_loop.simps) simp

lemma image_or_throw_Rejects [simp]: "image_or_throw m (Rejects e) = Inl e"
  by (simp add: image_or_throw_def)

lemma generateShot_loop_calls_bound:
  "tr_calls (snd (generateShot_loop call shotId attempt tr)) \<le> tr_calls tr + (MAX_RETRIES + 1 - attempt)"
proof (induction call shotId attempt tr rule: generateShot_loop.induct)
  case (1 call shotId attempt tr)
  show ?case
  proof (cases "attempt \<le> MAX_RETRIES")
    case False
    then show ?thesis by (subst generateShot_loop.simps) simp
  next
    case le: True
    show ?thesis
    proof (cases "image_or_throw ''No image data found in response'' (call (tr_calls tr))")
      case (Inr url)
      with le show ?thesis by (simp add: generateShot_loop_image)
    next
      case (Inl e)
      show ?thesis
      proof (cases "isRateLimit e \<and> attempt < MAX_RETRIES")
        case True
        from "1.IH" [OF le Inl True]
        have "tr_calls (snd (generateShot_loop call shotId (attempt + 1)
                (tr\<lparr>tr_calls := tr_calls tr + 1,
                     tr_delays := tr_delays tr @ [backoff_delay attempt]\<rparr>)))
              \<le> tr_calls tr + 1 + (MAX_RETRIES + 1 - (attempt + 1))"
          by simp
        moreover have "generateShot_loop call shotId attempt tr =
            generateShot_loop call shotId (attempt + 1)
                (tr\<lparr>tr_calls := tr_calls tr + 1,
                     tr_delays := tr_delays tr @ [backoff_delay attempt]\<rparr>)"
          using True Inl by (intro generateShot_loop_retry) auto
        ultimately show ?thesis using True by simp arith
      next
        case False
        with le Inl show ?thesis
          by (simp add: generateShot_loop_give_up)
      qed
    qed
  qed
qed

lemma three_rate_limits:
  assumes "\<forall>k<3. \<exists>e. call k = Rejects e \<and> isRateLimit e"
  shows "generateShot_loop call shotId 0 \<lparr>tr_calls = 0, tr_delays = []\<rparr> =
         generateShot_loop call shotId 3 \<lparr>tr_calls = 3, tr_delays = [2000, 4000, 8000]\<rparr>"
proof -
  from assms have "\<exists>e. call 0 = Rejects e \<and> isRateLimit e" "\<exists>e. call 1 = Rejects e \<and> isRateLimit e"
    "\<exists>e. call 2 = Rejects e \<and> isRateLimit e"
    by simp_all
  then obtain e0 e1 e2 where
    e: "call 0 = Rejects e0" "isRateLimit e0" "call 1 = Rejects e1" "isRateLimit e1"
       "call 2 = Rejects e2" "isRateLimit e2"
    by blast
  have "generateShot_loop call shotId 0 \<lparr>tr_calls = 0, tr_delays = []\<rparr> =
        generateShot_loop call shotId (0 + 1)
          (\<lparr>tr_calls = 0, tr_delays = []\<rparr>\<lparr>tr_calls := 0 + 1, tr_delays := [] @ [backoff_delay 0]\<rparr>)"
    using generateShot_loop_retry [of 0 call "\<lparr>tr_calls = 0, tr_delays = []\<rparr>" e0 shotId] e
    by (simp add: MAX_RETRIES_def)
  also have "\<dots> = generateShot_loop call shotId 1 \<lparr>tr_calls = 1, tr_delays = [2000]\<rparr>"
    by (simp add: backoff_delay_def)
  also have "\<dots> = generateShot_loop call shotId (1 + 1)
          (\<lparr>tr_calls = 1, tr_delays = [2000]\<rparr>\<lparr>tr_calls := 1 + 1, tr_delays := [2000] @ [backoff_delay 1]\<rparr>)"
    using generateShot_loop_retry [of 1 call "\<lparr>tr_calls = 1, tr_delays = [2000]\<rparr>" e1 shotId] e
    by (simp add: MAX_RETRIES_def)
  also have "\<dots> = generateShot_loop call shotId 2 \<lparr>tr_calls = 2, tr_delays = [2000, 4000]\<rparr>"
    by (simp add: backoff_delay_def numeral_2_eq_2)
  also have "\<dots> = generateShot_loop call shotId (2 + 1)
          (\<lparr>tr_calls = 2, tr_delays = [2000, 4000]\<rparr>\<lparr>tr_calls := 2 + 1, tr_delays := [2000, 4000] @ [backoff_delay 2]\<rparr>)"
    using generateShot_loop_retry [of 2 call "\<lparr>tr_calls = 2, tr_delays = [2000, 4000]\<rparr>" e2 shotId] e
    by (simp add: MAX_RETRIES_def)
  also have "\<dots> = generateShot_loop call shotId 3 \<lparr>tr_calls = 3, tr_delays = [2000, 4000, 8000]\<rparr>"
    by (simp add: backoff_delay_def numeral_3_eq_3)
  finally show ?thesis .
qed

lemma fourth_call_gives_up:
  assumes "image_or_throw ''No image data found in response'' (call 3) = Inl e"
  shows "generateShot_loop call shotId 3 \<lparr>tr_calls = 3, tr_delays = ds\<rparr> =
         (Inl e, \<lparr>tr_calls = 4, tr_delays = ds\<rparr>)"
  using generateShot_loop_give_up [of 3 call "\<lparr>tr_calls = 3, tr_delays = ds\<rparr>" e shotId] assms
  by (simp add: MAX_RETRIES_def)

lemma fourth_call_image:
  assumes "image_or_throw ''No image data found in response'' (call 3) = Inr url"
  shows "generateShot_loop call shotId 3 \<lparr>tr_calls = 3, tr_delays = ds\<rparr> =
         (Inr url, \<lparr>tr_calls = 4, tr_delays = ds\<rparr>)"
  using generateShot_loop_image [of 3 call "\<lparr>tr_calls = 3, tr_delays = ds\<rparr>" url shotId] assms
  by (simp add: MAX_RETRIES_def)

lemma first_call_gives_up:
  assumes "image_or_throw ''No image data found in response'' (call 0) = Inl e" "\<not> isRateLimit e"
  shows "generateShot_loop call shotId 0 \<lparr>tr_calls = 0, tr_delays = []\<rparr> =
         (Inl e, \<lparr>tr_calls = 1, tr_delays = []\<rparr>)"
  using generateShot_loop_give_up [of 0 call "\<lparr>tr_calls = 0, tr_delays = []\<rparr>" e shotId] assms
  by (simp add: MAX_RETRIES_def)

lemma generateShot_four_rate_limits:
  assumes "\<forall>k<4. \<exists>e. call k = Rejects e \<and> isRateLimit e"
  shows "\<exists>e. call 3 = Rejects e \<and> isRateLimit e \<and>
           generateShot_loop call shotId 0 \<lparr>tr_calls = 0, tr_delays = []\<rparr> =
           (Inl e, \<lparr>tr_calls = 4, tr_delays = [2000, 4000, 8000]\<rparr>)"
proof -
  from assms have "\<exists>e. call 3 = Rejects e \<and> isRateLimit e"
    by simp
  then obtain e where e: "call 3 = Rejects e" "isRateLimit e"
    by blast
  from assms have "\<forall>k<3. \<exists>e. call k = Rejects e \<and> isRateLimit e"
    by simp
  then show ?thesis
    using e by (simp add: three_rate_limits fourth_call_gives_up)
qed

lemma processShot_failed:
  assumes "fst (generateShot ai src (getShotDefinition type (subjectType c)) (productName c)
                  (productDescription c) (aspectRatio c)) = Inl e"
  shows "fst (processShot ai src c type s) = shot_failed type s"
  using assms by (simp add: processShot_def Let_def)

lemma processShot_succeeded:
  assumes "fst (generateShot ai src (getShotDefinition type (subjectType c)) (productName c)
                  (productDescription c) (aspectRatio c)) = Inr url"
  shows "fst (processShot ai src c type s) = shot_succeeded type url s"
  using assms by (simp add: processShot_def Let_def)

lemma processShot_trace:
  "snd (processShot ai src c type s) =
   snd (generateShot ai src (getShotDefinition type (subjectType c)) (productName c)
          (productDescription c) (aspectRatio c))"
  by (simp add: processShot_def Let_def)

lemma fold_assign:
  "fold (\<lambda>type shots. shots(type \<mapsto> f type)) styles m =
   (\<lambda>t. if t \<in> set styles then Some (f t) else m t)"
  by (induction styles arbitrary: m) (auto simp: fun_eq_iff)

lemma initialShots_apply:
  "initialShots now subject styles t =
   (if t \<in> set styles then Some (loadingShot now subject t) else None)"
  by (simp add: initialShots_def fold_assign)

lemma handleGenerate_begin_shots:
  "truthy (sourceImage s) \<Longrightarrow>
   generatedShots (handleGenerate_begin now s) =
   initialShots now (subjectType s) (activeStyles (subjectType s))"
  by (simp add: handleGenerate_begin_def Let_def)

lemma closure_A_simps:
  "sourceImage closure_A = Some image_X" "subjectType closure_A = PRODUCT"
  "productName closure_A = ''product''" "productDescription closure_A = []"
  "aspectRatio closure_A = Ratio_3_4" "currentProjectId closure_A = None"
  "productCategory closure_A = []"
  by (simp_all add: closure_A_def handleImageSelect_begin_def initial_app_def)

lemma truthy_images: "truthy (Some image_X)" "truthy (Some image_Y)"
  by (simp_all add: truthy_def image_X_def image_Y_def)

lemma batch_A_shots:
  "generatedShots batch_A = initialShots 1000 PRODUCT PRODUCT_STYLES"
  by (simp add: batch_A_def handleGenerate_begin_shots closure_A_simps truthy_images
      activeStyles_def)

lemma isRateLimit_quota_error: "isRateLimit quota_error"
  by (simp add: isRateLimit_def quota_error_def)

lemma not_isRateLimit_server_error: "\<not> isRateLimit server_error"
  by (simp add: isRateLimit_def server_error_def)

lemma image_of_image_response:
  "image_or_throw m (Responds image_response) = Inr ''data:image/jpeg;base64,QUJD''"
  by (simp add: image_or_throw_def image_response_def)

lemma generateShot_first_image:
  assumes "image_or_throw ''No image data found in response''
             (ai (generateShot_request src shotDef pn pd ratio) 0) = Inr url"
  shows "generateShot ai src shotDef pn pd ratio = (Inr url, \<lparr>tr_calls = 1, tr_delays = []\<rparr>)"
  unfolding generateShot_def
  using generateShot_loop_image
    [of 0 "ai (generateShot_request src shotDef pn pd ratio)" "\<lparr>tr_calls = 0, tr_delays = []\<rparr>" url
        "sd_id shotDef"] assms
  by simp

lemma shot_succeeded_apply:
  "generatedShots (shot_succeeded type url s) t =
   (if t = type
    then Some ((spread (generatedShots s type))\<lparr>gi_imageUrl := Some url, gi_isLoading := Some False\<rparr>)
    else generatedShots s t)"
  by (simp add: shot_succeeded_def)

lemma batch_B_shots:
  "generatedShots batch_B = initialShots 2000 PRODUCT PRODUCT_STYLES"
  by (simp add: batch_B_def handleGenerate_begin_shots handleImageSelect_begin_def truthy_images
      activeStyles_def)

lemma shot_failed_apply:
  "generatedShots (shot_failed type s) t =
   (if t = type
    then Some ((spread (generatedShots s type))
                 \<lparr>gi_isLoading := Some False, gi_error := Some ''Failed to generate''\<rparr>)
    else generatedShots s t)"
  by (simp add: shot_failed_def)

lemma processShot_frame:
  "t \<noteq> type \<Longrightarrow> generatedShots (fst (processShot ai src c type s)) t = generatedShots s t"
  by (simp add: processShot_def Let_def shot_succeeded_apply shot_failed_apply split: sum.splits)

lemma analyzeProduct_cases:
  "analyzeProduct ai JSON_parse src =
   (case ai (analyzeProduct_request src) 0 of
      Rejects e \<Rightarrow> Inr fallback_analysis
    | Responds response \<Rightarrow>
        (case JSON_parse (response_jsonStr response) of
           SyntaxError \<Rightarrow> Inr fallback_analysis
         | JsonNull \<Rightarrow> Inr fallback_analysis
         | JsonValue result \<Rightarrow>
             analysis_of_text JSON_parse (response_jsonStr response)))"
  by (simp add: analyzeProduct_def analyzeProduct_body_def analysis_of_text_def
      split: BackendReply.splits Parsed.splits)

lemma analyzeProduct_returns:
  "\<exists>result. analyzeProduct ai JSON_parse src = Inr result"
  by (simp add: analyzeProduct_cases analysis_of_text_def split: BackendReply.splits Parsed.splits)

lemma handleImageSelect_end_frame:
  "sourceImage (handleImageSelect_end analysis s) = sourceImage s"
  "isDetecting (handleImageSelect_end analysis s) = False"
  "subjectType (handleImageSelect_end analysis s) = subjectType s"
  "currentProjectId (handleImageSelect_end analysis s) = currentProjectId s"
  "generatedShots (handleImageSelect_end analysis s) = generatedShots s"
  by (simp_all add: handleImageSelect_end_def Let_def)

lemma handleImageSelect_frame:
  "sourceImage (handleImageSelect ai JSON_parse src s) = Some src"
  "isDetecting (handleImageSelect ai JSON_parse src s) = False"
  "subjectType (handleImageSelect ai JSON_parse src s) = PRODUCT"
  by (simp_all add: handleImageSelect_def handleImageSelect_end_frame handleImageSelect_begin_def
      split: sum.splits)

lemma analysis_of_empty_object:
  assumes "ai (analyzeProduct_request src) 0 = Responds response"
    and "JSON_parse (response_jsonStr response) =
         JsonValue \<lparr>aj_productName = None, aj_description = None, aj_category = None,
                    aj_confidence = None, aj_isHuman = None, aj_framingQuality = None,
                    aj_recommendations = None\<rparr>"
  shows "analyzeProduct ai JSON_parse src =
         Inr (fallback_analysis\<lparr>ar_confidence := 8 / 10, ar_framingQuality := Some ''ok''\<rparr>)"
  using assms
  by (simp add: analyzeProduct_cases analysis_of_text_def fallback_analysis_def or_string_def
      or_number_def)

lemma response_jsonStr_prose:
  "response_jsonStr prose_response = ''I cannot analyze this image.''"
proof -
  have t: "(case resp_text prose_response of
              Some t \<Rightarrow> if t \<noteq> [] then t else [] | None \<Rightarrow> []) =
           ''I cannot analyze this image.''"
    by (simp add: prose_response_def)
  have r1: "replace_all ([CHR 0x60, CHR 0x60, CHR 0x60] @ ''json'') []
              ''I cannot analyze this image.'' = ''I cannot analyze this image.''"
    by (simp add: replace_all_def)
  have r2: "replace_all [CHR 0x60, CHR 0x60, CHR 0x60] [] ''I cannot analyze this image.'' =
            ''I cannot analyze this image.''"
    by (simp add: replace_all_def)
  have s1: "strip_prefixes white_space ''I cannot analyze this image.'' =
            ''I cannot analyze this image.''"
    by (simp add: strip_prefixes.simps white_space_def)
  have s2: "strip_prefixes (map rev white_space) (rev ''I cannot analyze this image.'') =
            rev ''I cannot analyze this image.''"
    by (simp add: strip_prefixes.simps white_space_def)
  show ?thesis
    unfolding response_jsonStr_def Let_def t r1 r2 trim_def s1 s2 by simp
qed

lemma response_jsonStr_fenced:
  "response_jsonStr fenced_object_response = ''{}''"
proof -
  have t: "(case resp_text fenced_object_response of
              Some t \<Rightarrow> if t \<noteq> [] then t else [] | None \<Rightarrow> []) =
           [CHR 0x60, CHR 0x60, CHR 0x60, CHR ''j'', CHR ''s'', CHR ''o'', CHR ''n'', CHR 0x0A,
            CHR ''{'', CHR ''}'', CHR 0x0A, CHR 0x60, CHR 0x60, CHR 0x60, CHR 0x0A]"
    by (simp add: fenced_object_response_def)
  have r1: "replace_all ([CHR 0x60, CHR 0x60, CHR 0x60] @ ''json'') []
              [CHR 0x60, CHR 0x60, CHR 0x60, CHR ''j'', CHR ''s'', CHR ''o'', CHR ''n'', CHR 0x0A,
               CHR ''{'', CHR ''}'', CHR 0x0A, CHR 0x60, CHR 0x60, CHR 0x60, CHR 0x0A] =
            [CHR 0x0A, CHR ''{'', CHR ''}'', CHR 0x0A, CHR 0x60, CHR 0x60, CHR 0x60, CHR 0x0A]"
    by (simp add: replace_all_def)
  have r2: "replace_all [CHR 0x60, CHR 0x60, CHR 0x60] []
              [CHR 0x0A, CHR ''{'', CHR ''}'', CHR 0x0A, CHR 0x60, CHR 0x60, CHR 0x60, CHR 0x0A] =
            [CHR 0x0A, CHR ''{'', CHR ''}'', CHR 0x0A, CHR 0x0A]"
    by (simp add: replace_all_def)
  have s1: "strip_prefixes white_space [CHR 0x0A, CHR ''{'', CHR ''}'', CHR 0x0A, CHR 0x0A] =
            [CHR ''{'', CHR ''}'', CHR 0x0A, CHR 0x0A]"
    by (simp add: strip_prefixes.simps white_space_def)
  have s2: "strip_prefixes (map rev white_space) (rev [CHR ''{'', CHR ''}'', CHR 0x0A, CHR 0x0A]) =
            rev ''{}''"
    by (simp add: strip_prefixes.simps white_space_def)
  show ?thesis
    unfolding response_jsonStr_def Let_def t r1 r2 trim_def s1 s2 by simp
qed

lemma saveToHistory_store:
  assumes "sourceImage c = Some src" "src \<noteq> []"
  shows "snd (saveToHistory c PutDone now shots pid sdb) =
         (snd sdb)((case pid of Some p \<Rightarrow> if p \<noteq> [] then p else string_of_nat now
                              | None \<Rightarrow> string_of_nat now) \<mapsto>
           \<lparr>ph_id = (case pid of Some p \<Rightarrow> if p \<noteq> [] then p else string_of_nat now
                              | None \<Rightarrow> string_of_nat now),
            ph_timestamp = now, ph_sourceImage = src, ph_productName = productName c,
            ph_productDescription = productDescription c,
            ph_productCategory = productCategory c, ph_subjectType = subjectType c,
            ph_generatedShots = shots\<rparr>)"
  using assms by (simp add: saveToHistory_def saveProject_def Let_def)

lemma saveToHistory_shots:
  "generatedShots (fst (saveToHistory c outcome now shots pid sdb)) = generatedShots (fst sdb)"
  by (simp add: saveToHistory_def Let_def split: option.splits)

lemma handleEditShot_success:
  assumes "generatedShots s type = Some currentShot" and "truthy (gi_imageUrl currentShot)"
    and "editShot ai (productName s) (productDescription s)
           (getShotDefinition type (subjectType s)) customPrompt (aspectRatio s) = Inr url"
  shows "handleEditShot ai outcome now type customPrompt (s, db) =
         handleEditShot_succeeded s outcome now type customPrompt currentShot url
           (s\<lparr>generatedShots := (generatedShots s)(type \<mapsto>
                 currentShot\<lparr>gi_isLoading := Some True, gi_error := None\<rparr>)\<rparr>, db)"
  using assms by (simp add: handleEditShot_def handleEditShot_begin_def Let_def spread_def)

lemma handleEditShot_succeeded_shots:
  "generatedShots (fst (handleEditShot_succeeded c outcome now type customPrompt currentShot url sdb)) =
   (generatedShots (fst sdb))(type \<mapsto>
      currentShot\<lparr>gi_imageUrl := Some url, gi_isLoading := Some False, gi_timestamp := Some now,
                  gi_customPrompt := Some customPrompt\<rparr>)"
  by (simp add: handleEditShot_succeeded_def Let_def saveToHistory_shots split: option.splits)

lemma handleEditShot_succeeded_store:
  "snd (handleEditShot_succeeded c outcome now type customPrompt currentShot url sdb) =
   snd (saveToHistory c outcome now
          ((generatedShots (fst sdb))(type \<mapsto>
             currentShot\<lparr>gi_imageUrl := Some url, gi_isLoading := Some False,
                         gi_timestamp := Some now, gi_customPrompt := Some customPrompt\<rparr>))
          (currentProjectId c)
          ((fst sdb)\<lparr>generatedShots := (generatedShots (fst sdb))(type \<mapsto>
             currentShot\<lparr>gi_imageUrl := Some url, gi_isLoading := Some False,
                         gi_timestamp := Some now, gi_customPrompt := Some customPrompt\<rparr>)\<rparr>,
           snd sdb))"
  by (simp add: handleEditShot_succeeded_def Let_def split: option.splits)

lemma processShot_only_shots:
  "fst (processShot ai src c type s) =
   s\<lparr>generatedShots := generatedShots (fst (processShot ai src c type s))\<rparr>"
  by (simp add: processShot_def Let_def shot_succeeded_def shot_failed_def split: sum.splits)

lemma processQueue_only_shots:
  "processQueue ai src c queue s =
   s\<lparr>generatedShots := generatedShots (processQueue ai src c queue s)\<rparr>"
proof (induction queue arbitrary: s)
  case Nil
  show ?case by simp
next
  case (Cons type queue)
  have "processQueue ai src c (type # queue) s =
        (fst (processShot ai src c type s))
          \<lparr>generatedShots := generatedShots (processQueue ai src c (type # queue) s)\<rparr>"
    using Cons.IH [of "fst (processShot ai src c type s)"] by simp
  also have "\<dots> = s\<lparr>generatedShots := generatedShots (processQueue ai src c (type # queue) s)\<rparr>"
    by (subst processShot_only_shots) simp
  finally show ?case .
qed

lemma processShot_always_image:
  "fst (processShot always_image src c type s) =
   shot_succeeded type ''data:image/jpeg;base64,QUJD'' s"
  by (rule processShot_succeeded)
     (simp add: generateShot_first_image always_image_def image_of_image_response)

lemma processQueue_always_image:
  "generatedShots (processQueue always_image src c queue s) t =
   (if t \<in> set queue
    then Some ((spread (generatedShots s t))
                 \<lparr>gi_imageUrl := Some ''data:image/jpeg;base64,QUJD'', gi_isLoading := Some False\<rparr>)
    else generatedShots s t)"
  by (induction queue arbitrary: s)
     (auto simp: processShot_always_image shot_succeeded_apply spread_def)

lemma images_nonempty: "image_X \<noteq> []" "image_Y \<noteq> []"
  by (simp_all add: image_X_def image_Y_def)

lemma product_styles_mem: "HERO \<in> set PRODUCT_STYLES" "MACRO \<in> set PRODUCT_STYLES"
  by (simp_all add: PRODUCT_STYLES_def)

lemma persisted_A_state:
  "fst persisted_A =
   batch_A\<lparr>generatedShots :=
             generatedShots (processQueue always_image image_X closure_A PRODUCT_STYLES batch_A),
           isGenerating := False\<rparr>"
  unfolding persisted_A_def handleGenerate_def
  by (subst processQueue_only_shots)
     (simp add: closure_A_simps images_nonempty Let_def saveToHistory_def
        activeProjectId_def activeStyles_def batch_A_def [symmetric] truthy_def
        string_of_nat.simps)

lemma persisted_A_store:
  "snd persisted_A =
   [''1000'' \<mapsto>
      \<lparr>ph_id = ''1000'', ph_timestamp = 1500, ph_sourceImage = image_X,
       ph_productName = ''product'', ph_productDescription = [], ph_productCategory = [],
       ph_subjectType = PRODUCT,
       ph_generatedShots =
         generatedShots (processQueue always_image image_X closure_A PRODUCT_STYLES batch_A)\<rparr>]"
  unfolding persisted_A_def handleGenerate_def
  by (simp add: closure_A_simps images_nonempty Let_def saveToHistory_def saveProject_def
        activeProjectId_def activeStyles_def batch_A_def [symmetric] truthy_def
        string_of_nat.simps)

lemma batch_A_fields:
  "sourceImage batch_A = Some image_X" "subjectType batch_A = PRODUCT"
  "productName batch_A = ''product''" "productDescription batch_A = []"
  "productCategory batch_A = []" "aspectRatio batch_A = Ratio_3_4"
  "currentProjectId batch_A = Some ''1000''"
  by (simp_all add: batch_A_def handleGenerate_begin_def closure_A_def handleImageSelect_begin_def
      initial_app_def Let_def truthy_def images_nonempty activeProjectId_def string_of_nat.simps)

lemma dom_initialShots: "dom (initialShots now subject styles) = set styles"
  by (auto simp: initialShots_apply dom_def)

lemma catalogs:
  "distinct PRODUCT_STYLES" "distinct HUMAN_STYLES"
  "length PRODUCT_STYLES = 9" "length HUMAN_STYLES = 9"
  "set HUMAN_STYLES \<inter> set PRODUCT_STYLES = {}"
  by (simp_all add: PRODUCT_STYLES_def HUMAN_STYLES_def)

lemma card_catalogs: "card (set PRODUCT_STYLES) = 9" "card (set HUMAN_STYLES) = 9"
  by (simp_all add: distinct_card catalogs)

lemma activeStyles_catalog:
  "distinct (activeStyles mode)" "length (activeStyles mode) = 9"
  by (simp_all add: activeStyles_def catalogs)

lemma dom_processShot:
  "dom (generatedShots (fst (processShot ai src c type s))) = insert type (dom (generatedShots s))"
  by (auto simp: processShot_def Let_def shot_succeeded_def shot_failed_def split: sum.splits)

lemma dom_processQueue:
  "dom (generatedShots (processQueue ai src c queue s)) = set queue \<union> dom (generatedShots s)"
  by (induction queue arbitrary: s) (auto simp: dom_processShot)

lemma dom_handleGenerate:
  assumes "truthy (sourceImage s)"
  shows "dom (generatedShots (fst (handleGenerate ai outcome now now' (s, db)))) =
         set (activeStyles (subjectType s))"
proof -
  from assms obtain src where src: "sourceImage s = Some src" "src \<noteq> []"
    by (auto simp: truthy_def split: option.splits)
  then show ?thesis
    using assms
    by (simp add: handleGenerate_def Let_def saveToHistory_shots dom_processQueue
        handleGenerate_begin_shots dom_initialShots)
qed

lemma dom_handleEditShot:
  "dom (generatedShots (fst (handleEditShot ai outcome now type customPrompt (s, db)))) =
   dom (generatedShots s)"
  by (auto simp: handleEditShot_def handleEditShot_begin_def Let_def
      handleEditShot_succeeded_shots handleEditShot_failed_def
      split: option.splits sum.splits if_splits)

lemma analyzeProduct_parsed:
  assumes "ai (analyzeProduct_request src) 0 = Responds response"
    and "JSON_parse (response_jsonStr response) = JsonValue result"
  shows "analyzeProduct ai JSON_parse src =
         Inr \<lparr>ar_productName = or_string (aj_productName result) ''Subject'',
              ar_description =
                or_string (aj_description result) ''A detailed shot of the subject.'',
              ar_category = or_string (aj_category result) ''general'',
              ar_confidence = or_number (aj_confidence result) (8 / 10),
              ar_isHuman = aj_isHuman result,
              ar_framingQuality = Some (or_string (aj_framingQuality result) ''ok''),
              ar_recommendations =
                (case aj_recommendations result of Some r \<Rightarrow> r | None \<Rightarrow> [])\<rparr>"
  using assms by (simp add: analyzeProduct_cases analysis_of_text_def)

lemma or_number_nonzero: "or_number x (8 / 10) \<noteq> 0"
  by (simp add: or_number_def split: option.splits)

section \<open>Properties\<close>

text \<open>
  C1. Claimed: when the active batch identity changes (new source image, mode switch, fresh
  regenerate-all) before a task settles, the settlement of the task is discarded and never
  appears in the task state of the new batch. The handlers compare no identity. In the run
  below a task of the batch of \<open>image_X\<close> (project \<open>1000\<close>) settles after \<open>image_Y\<close> has been
  selected and its batch (project \<open>2000\<close>) has been started: the entry of \<open>HERO\<close> in the new
  batch then shows the image of the old task and is no longer loading. After a mode switch
  instead, the settlement creates an entry for \<open>HERO\<close> in the emptied map.
\<close>

theorem stale_result_counterexample:
  "currentProjectId batch_A = Some ''1000''
   \<and> currentProjectId batch_B = Some ''2000''
   \<and> sourceImage batch_B = Some image_Y
   \<and> generatedShots batch_B HERO = Some (loadingShot 2000 PRODUCT HERO)
   \<and> generatedShots (fst (processShot always_image image_X closure_A HERO batch_B)) HERO =
       Some ((loadingShot 2000 PRODUCT HERO)
               \<lparr>gi_imageUrl := Some ''data:image/jpeg;base64,QUJD'', gi_isLoading := Some False\<rparr>)
   \<and> generatedShots
       (fst (processShot always_image image_X closure_A HERO (onSelect HUMAN batch_A))) HERO =
       Some (no_properties\<lparr>gi_imageUrl := Some ''data:image/jpeg;base64,QUJD'',
                           gi_isLoading := Some False\<rparr>)"
proof -
  have h: "fst (generateShot always_image image_X (getShotDefinition HERO (subjectType closure_A))
          (productName closure_A) (productDescription closure_A) (aspectRatio closure_A)) =
     Inr ''data:image/jpeg;base64,QUJD''"
    by (simp add: generateShot_first_image always_image_def image_of_image_response)
  have p: "fst (processShot always_image image_X closure_A HERO s) =
           shot_succeeded HERO ''data:image/jpeg;base64,QUJD'' s" for s
    using h by (rule processShot_succeeded)
  have ids: "currentProjectId batch_A = Some ''1000''" "currentProjectId batch_B = Some ''2000''"
    "sourceImage batch_B = Some image_Y" "subjectType batch_A = PRODUCT"
    by (simp_all add: batch_A_def batch_B_def handleGenerate_begin_def handleImageSelect_begin_def
        closure_A_simps Let_def activeProjectId_def truthy_def image_X_def image_Y_def
        string_of_nat.simps)
  show ?thesis
    by (simp add: ids p shot_succeeded_apply batch_B_shots initialShots_apply PRODUCT_STYLES_def
        spread_def onSelect_def)
qed

text \<open>
  C1, as the handlers have it. The settlement of a task, success or failure, is merged into
  the task state that is current when it settles, under the style of the task: into an
  entry that holds the outcome alone after a new source image or a mode switch, into the
  entry of that style in the new batch after a new \<^verbatim>\<open>handleGenerate\<close>. The entries of all
  other styles stay as they are.
\<close>

theorem settlement_merges_into_current_state:
  "(fst (generateShot ai src (getShotDefinition type (subjectType c)) (productName c)
           (productDescription c) (aspectRatio c)) = Inr url \<longrightarrow>
      generatedShots (fst (processShot ai src c type s)) type =
        Some ((spread (generatedShots s type))
                \<lparr>gi_imageUrl := Some url, gi_isLoading := Some False\<rparr>)
      \<and> generatedShots (fst (processShot ai src c type (handleImageSelect_begin img s))) type =
          Some (no_properties\<lparr>gi_imageUrl := Some url, gi_isLoading := Some False\<rparr>)
      \<and> (mode \<noteq> subjectType s \<longrightarrow>
           generatedShots (fst (processShot ai src c type (onSelect mode s))) type =
             Some (no_properties\<lparr>gi_imageUrl := Some url, gi_isLoading := Some False\<rparr>))
      \<and> (truthy (sourceImage s) \<and> type \<in> set (activeStyles (subjectType s)) \<longrightarrow>
           generatedShots (fst (processShot ai src c type (handleGenerate_begin now s))) type =
             Some ((loadingShot now (subjectType s) type)
                     \<lparr>gi_imageUrl := Some url, gi_isLoading := Some False\<rparr>)))
   \<and> (fst (generateShot ai src (getShotDefinition type (subjectType c)) (productName c)
           (productDescription c) (aspectRatio c)) = Inl e \<longrightarrow>
      generatedShots (fst (processShot ai src c type s)) type =
        Some ((spread (generatedShots s type))
                \<lparr>gi_isLoading := Some False, gi_error := Some ''Failed to generate''\<rparr>)
      \<and> generatedShots (fst (processShot ai src c type (handleImageSelect_begin img s))) type =
          Some (no_properties\<lparr>gi_isLoading := Some False,
                               gi_error := Some ''Failed to generate''\<rparr>))
   \<and> (\<forall>t. t \<noteq> type \<longrightarrow>
        generatedShots (fst (processShot ai src c type s)) t = generatedShots s t)"
  by (simp add: processShot_succeeded [where url = url] processShot_failed [where e = e]
      processShot_frame shot_succeeded_apply shot_failed_apply handleImageSelect_begin_def
      onSelect_def handleGenerate_begin_shots initialShots_apply spread_def)

theorem settlement_merges_into_current_state_witness:
  "fst (generateShot always_image image_X (getShotDefinition HERO (subjectType closure_A))
          (productName closure_A) (productDescription closure_A) (aspectRatio closure_A)) =
     Inr ''data:image/jpeg;base64,QUJD''
   \<and> generatedShots (fst (processShot always_image image_X closure_A HERO batch_A)) HERO =
       Some ((loadingShot 1000 PRODUCT HERO)
               \<lparr>gi_imageUrl := Some ''data:image/jpeg;base64,QUJD'', gi_isLoading := Some False\<rparr>)
   \<and> generatedShots (fst (processShot always_image image_X closure_A HERO batch_A)) MACRO =
       generatedShots batch_A MACRO
   \<and> generatedShots
       (fst (processShot always_image image_X closure_A HERO (handleImageSelect_begin image_Y batch_A)))
       HERO =
       Some (no_properties\<lparr>gi_imageUrl := Some ''data:image/jpeg;base64,QUJD'',
                           gi_isLoading := Some False\<rparr>)
   \<and> HUMAN \<noteq> subjectType batch_A
   \<and> generatedShots (fst (processShot always_image image_X closure_A HERO (onSelect HUMAN batch_A)))
       HERO =
       Some (no_properties\<lparr>gi_imageUrl := Some ''data:image/jpeg;base64,QUJD'',
                           gi_isLoading := Some False\<rparr>)
   \<and> truthy (sourceImage batch_A) \<and> HERO \<in> set (activeStyles (subjectType batch_A))
   \<and> generatedShots
       (fst (processShot always_image image_X closure_A HERO (handleGenerate_begin 3000 batch_A)))
       HERO =
       Some ((loadingShot 3000 PRODUCT HERO)
               \<lparr>gi_imageUrl := Some ''data:image/jpeg;base64,QUJD'', gi_isLoading := Some False\<rparr>)
   \<and> fst (generateShot always_server_error image_X (getShotDefinition HERO (subjectType closure_A))
          (productName closure_A) (productDescription closure_A) (aspectRatio closure_A)) =
       Inl server_error
   \<and> generatedShots
       (fst (processShot always_server_error image_X closure_A HERO
               (handleImageSelect_begin image_Y batch_A)))
       HERO =
       Some (no_properties\<lparr>gi_isLoading := Some False, gi_error := Some ''Failed to generate''\<rparr>)"
proof -
  have h: "fst (generateShot always_image image_X (getShotDefinition HERO (subjectType closure_A))
          (productName closure_A) (productDescription closure_A) (aspectRatio closure_A)) =
     Inr ''data:image/jpeg;base64,QUJD''"
    by (simp add: generateShot_first_image always_image_def image_of_image_response)
  have f: "fst (generateShot always_server_error image_X
                  (getShotDefinition HERO (subjectType closure_A)) (productName closure_A)
                  (productDescription closure_A) (aspectRatio closure_A)) = Inl server_error"
    unfolding generateShot_def
    by (subst first_call_gives_up [where e = server_error])
       (simp_all add: always_server_error_def not_isRateLimit_server_error)
  have s: "subjectType batch_A = PRODUCT" "sourceImage batch_A = Some image_X"
    by (simp_all add: batch_A_def handleGenerate_begin_def closure_A_simps truthy_images Let_def)
  from settlement_merges_into_current_state
         [where ai = always_image and src = image_X and c = closure_A and type = HERO
            and s = batch_A and img = image_Y and mode = HUMAN and now = 3000
            and url = "''data:image/jpeg;base64,QUJD''"]
       settlement_merges_into_current_state
         [where ai = always_server_error and src = image_X and c = closure_A and type = HERO
            and s = batch_A and img = image_Y and e = server_error]
  show ?thesis
    using h f
    by (simp add: s truthy_images activeStyles_def PRODUCT_STYLES_def batch_A_shots
        initialShots_apply spread_def)
qed

text \<open>
  C2. Claimed: a task whose call is rejected with a rate-limit error on all 4 attempts ends
  failed with a reason that indicates exhausted retries, and no 5th call is made. In the run
  below \<^verbatim>\<open>generateShot\<close> fails with the error object of the backend itself, not with the
  error whose message ends in \<^verbatim>\<open>after 3 retries\<close>, and the reason recorded on the task is the
  text \<^verbatim>\<open>Failed to generate\<close>, the same text that a task records whose first call fails
  with a server error.
\<close>

theorem exhausted_retries_reason_counterexample:
  "fst (generateShot always_rate_limited image_X (getShotDefinition HERO PRODUCT) ''product'' []
          Ratio_3_4) = Inl quota_error
   \<and> quota_error \<noteq> new_Error ''Failed to generate shot HERO after 3 retries''
   \<and> map_option gi_error
       (generatedShots (fst (processShot always_rate_limited image_X closure_A HERO batch_A)) HERO) =
       Some (Some ''Failed to generate'')
   \<and> map_option gi_error
       (generatedShots (fst (processShot always_server_error image_X closure_A HERO batch_A)) HERO) =
       Some (Some ''Failed to generate'')"
proof -
  let ?req = "generateShot_request image_X (getShotDefinition HERO PRODUCT) ''product'' [] Ratio_3_4"
  have "\<forall>k<4. \<exists>e. always_rate_limited ?req k = Rejects e \<and> isRateLimit e"
    by (simp add: always_rate_limited_def isRateLimit_quota_error)
  from generateShot_four_rate_limits
    [where call = "always_rate_limited ?req"
       and shotId = "sd_id (getShotDefinition HERO PRODUCT)", OF this]
  have run: "generateShot always_rate_limited image_X (getShotDefinition HERO PRODUCT) ''product'' []
          Ratio_3_4 = (Inl quota_error, \<lparr>tr_calls = 4, tr_delays = [2000, 4000, 8000]\<rparr>)"
    by (auto simp: generateShot_def always_rate_limited_def)
  have run': "generateShot always_server_error image_X (getShotDefinition HERO PRODUCT) ''product'' []
          Ratio_3_4 = (Inl server_error, \<lparr>tr_calls = 1, tr_delays = []\<rparr>)"
    unfolding generateShot_def
    by (rule first_call_gives_up)
       (simp_all add: always_server_error_def not_isRateLimit_server_error)
  have 1: "fst (processShot always_rate_limited image_X closure_A HERO batch_A) =
           shot_failed HERO batch_A"
    by (rule processShot_failed [where e = quota_error]) (simp add: closure_A_simps run)
  have 2: "fst (processShot always_server_error image_X closure_A HERO batch_A) =
           shot_failed HERO batch_A"
    by (rule processShot_failed [where e = server_error]) (simp add: closure_A_simps run')
  show ?thesis
    by (simp add: run 1 2 shot_failed_def quota_error_def new_Error_def)
qed

text \<open>
  C2, as the handlers have it. A task whose call is rejected with a rate-limit error on all
  4 attempts makes exactly 4 backend calls, waits 2000, 4000 and 8000 ms between them, and
  ends failed: its entry stops loading and records the reason \<^verbatim>\<open>Failed to generate\<close>.
  No run of \<^verbatim>\<open>generateShot\<close>, whatever the backend replies, makes more than 4 calls.
\<close>

theorem exhausted_rate_limit_task_fails:
  assumes "\<forall>k<4. \<exists>e. ai (shotRequest src c type) k = Rejects e \<and> isRateLimit e"
  shows "tr_calls (snd (processShot ai src c type s)) = 4
       \<and> tr_delays (snd (processShot ai src c type s)) = [2000, 4000, 8000]
       \<and> generatedShots (fst (processShot ai src c type s)) type =
           Some ((spread (generatedShots s type))
                   \<lparr>gi_isLoading := Some False, gi_error := Some ''Failed to generate''\<rparr>)
       \<and> tr_calls (snd (generateShot ai' src' shotDef name description ratio)) \<le> 4"
proof -
  have bound: "tr_calls (snd (generateShot ai' src' shotDef name description ratio)) \<le> 4"
    unfolding generateShot_def
    using generateShot_loop_calls_bound
      [of "ai' (generateShot_request src' shotDef name description ratio)" "sd_id shotDef" 0
          "\<lparr>tr_calls = 0, tr_delays = []\<rparr>"]
    by (simp add: MAX_RETRIES_def)
  from generateShot_four_rate_limits [OF assms, of "sd_id (getShotDefinition type (subjectType c))"]
  obtain e where
    run: "generateShot ai src (getShotDefinition type (subjectType c)) (productName c)
            (productDescription c) (aspectRatio c) =
          (Inl e, \<lparr>tr_calls = 4, tr_delays = [2000, 4000, 8000]\<rparr>)"
    unfolding generateShot_def shotRequest_def by blast
  then have "fst (processShot ai src c type s) = shot_failed type s"
    by (simp add: processShot_failed)
  with run bound show ?thesis
    by (simp add: processShot_trace shot_failed_def)
qed

theorem exhausted_rate_limit_task_fails_witness:
  "always_rate_limited (shotRequest image_X closure_A HERO) 3 = Rejects quota_error
   \<and> isRateLimit quota_error
   \<and> tr_calls (snd (processShot always_rate_limited image_X closure_A HERO batch_A)) = 4
   \<and> tr_delays (snd (processShot always_rate_limited image_X closure_A HERO batch_A)) =
       [2000, 4000, 8000]
   \<and> generatedShots (fst (processShot always_rate_limited image_X closure_A HERO batch_A)) HERO =
       Some ((loadingShot 1000 PRODUCT HERO)
               \<lparr>gi_isLoading := Some False, gi_error := Some ''Failed to generate''\<rparr>)"
proof -
  have h: "\<forall>k<4. \<exists>e. always_rate_limited (shotRequest image_X closure_A HERO) k =
             Rejects e \<and> isRateLimit e"
    by (simp add: always_rate_limited_def isRateLimit_quota_error)
  from exhausted_rate_limit_task_fails
    [where ai = always_rate_limited and src = image_X and c = closure_A and type = HERO
       and s = batch_A, OF h]
  show ?thesis
    by (simp add: always_rate_limited_def isRateLimit_quota_error batch_A_shots
        initialShots_apply PRODUCT_STYLES_def spread_def)
qed

text \<open>
  C3. A task whose first three calls are rejected with rate-limit errors and whose fourth
  call returns an image ends succeeded: its entry holds the image and stops loading. It has
  made 4 calls and waited \<open>backoff_delay 0\<close>, \<open>backoff_delay 1\<close>, \<open>backoff_delay 2\<close>, in this
  order, where the delay before the retry number \<open>n\<close> is \<open>2 ^ (n + 1) * 1000\<close> ms: 2000, 4000
  and 8000 ms.
\<close>

theorem three_rate_limits_then_image_succeeds:
  assumes "\<forall>k<3. \<exists>e. ai (shotRequest src c type) k = Rejects e \<and> isRateLimit e"
    and "image_or_throw ''No image data found in response'' (ai (shotRequest src c type) 3) =
         Inr url"
  shows "tr_calls (snd (processShot ai src c type s)) = 4
       \<and> tr_delays (snd (processShot ai src c type s)) =
           [backoff_delay 0, backoff_delay 1, backoff_delay 2]
       \<and> [backoff_delay 0, backoff_delay 1, backoff_delay 2] = [2000, 4000, 8000]
       \<and> backoff_delay n = 2 ^ (n + 1) * 1000
       \<and> generatedShots (fst (processShot ai src c type s)) type =
           Some ((spread (generatedShots s type))
                   \<lparr>gi_imageUrl := Some url, gi_isLoading := Some False\<rparr>)"
proof -
  have run: "generateShot ai src (getShotDefinition type (subjectType c)) (productName c)
            (productDescription c) (aspectRatio c) =
          (Inr url, \<lparr>tr_calls = 4, tr_delays = [2000, 4000, 8000]\<rparr>)"
    unfolding generateShot_def
    using assms unfolding shotRequest_def
    by (simp add: three_rate_limits fourth_call_image)
  then have "fst (processShot ai src c type s) = shot_succeeded type url s"
    by (simp add: processShot_succeeded)
  with run show ?thesis
    by (simp add: processShot_trace shot_succeeded_def backoff_delay_def)
qed

theorem three_rate_limits_then_image_succeeds_witness:
  "rate_limited_thrice (shotRequest image_X closure_A HERO) 2 = Rejects quota_error
   \<and> isRateLimit quota_error
   \<and> rate_limited_thrice (shotRequest image_X closure_A HERO) 3 = Responds image_response
   \<and> tr_calls (snd (processShot rate_limited_thrice image_X closure_A HERO batch_A)) = 4
   \<and> tr_delays (snd (processShot rate_limited_thrice image_X closure_A HERO batch_A)) =
       [2000, 4000, 8000]
   \<and> generatedShots (fst (processShot rate_limited_thrice image_X closure_A HERO batch_A)) HERO =
       Some ((loadingShot 1000 PRODUCT HERO)
               \<lparr>gi_imageUrl := Some ''data:image/jpeg;base64,QUJD'', gi_isLoading := Some False\<rparr>)"
proof -
  let ?call = "rate_limited_thrice (shotRequest image_X closure_A HERO)"
  have h: "\<forall>k<3. \<exists>e. ?call k = Rejects e \<and> isRateLimit e"
    by (simp add: rate_limited_thrice_def isRateLimit_quota_error)
  have i: "image_or_throw ''No image data found in response'' (?call 3) =
           Inr ''data:image/jpeg;base64,QUJD''"
    by (simp add: rate_limited_thrice_def image_of_image_response)
  from three_rate_limits_then_image_succeeds
    [where ai = rate_limited_thrice and src = image_X and c = closure_A and type = HERO
       and s = batch_A, OF h i]
  show ?thesis
    by (simp add: rate_limited_thrice_def isRateLimit_quota_error batch_A_shots
        initialShots_apply PRODUCT_STYLES_def spread_def backoff_delay_def)
qed

text \<open>
  C4. A task whose first call fails with an error that is not classified as a rate limit
  (a rejection of the backend, or a response without image data) ends failed at once:
  \<^verbatim>\<open>generateShot\<close> fails with that error after one call and no delay, and the entry of the
  task stops loading and records the failure.
\<close>

theorem non_rate_limit_error_fails_immediately:
  assumes "image_or_throw ''No image data found in response'' (ai (shotRequest src c type) 0) =
           Inl e"
    and "\<not> isRateLimit e"
  shows "generateShot ai src (getShotDefinition type (subjectType c)) (productName c)
            (productDescription c) (aspectRatio c) = (Inl e, \<lparr>tr_calls = 1, tr_delays = []\<rparr>)
       \<and> tr_calls (snd (processShot ai src c type s)) = 1
       \<and> tr_delays (snd (processShot ai src c type s)) = []
       \<and> generatedShots (fst (processShot ai src c type s)) type =
           Some ((spread (generatedShots s type))
                   \<lparr>gi_isLoading := Some False, gi_error := Some ''Failed to generate''\<rparr>)"
proof -
  have run: "generateShot ai src (getShotDefinition type (subjectType c)) (productName c)
            (productDescription c) (aspectRatio c) = (Inl e, \<lparr>tr_calls = 1, tr_delays = []\<rparr>)"
    unfolding generateShot_def
    using assms unfolding shotRequest_def
    by (rule first_call_gives_up)
  then have "fst (processShot ai src c type s) = shot_failed type s"
    by (simp add: processShot_failed)
  with run show ?thesis
    by (simp add: processShot_trace shot_failed_def)
qed

theorem non_rate_limit_error_fails_immediately_witness:
  "always_server_error (shotRequest image_X closure_A HERO) 0 = Rejects server_error
   \<and> \<not> isRateLimit server_error
   \<and> tr_calls (snd (processShot always_server_error image_X closure_A HERO batch_A)) = 1
   \<and> tr_delays (snd (processShot always_server_error image_X closure_A HERO batch_A)) = []
   \<and> generatedShots (fst (processShot always_server_error image_X closure_A HERO batch_A)) HERO =
       Some ((loadingShot 1000 PRODUCT HERO)
               \<lparr>gi_isLoading := Some False, gi_error := Some ''Failed to generate''\<rparr>)"
proof -
  let ?call = "always_server_error (shotRequest image_X closure_A HERO)"
  have h: "image_or_throw ''No image data found in response'' (?call 0) = Inl server_error"
    by (simp add: always_server_error_def)
  from non_rate_limit_error_fails_immediately
    [where ai = always_server_error and src = image_X and c = closure_A and type = HERO
       and s = batch_A, OF h not_isRateLimit_server_error]
  show ?thesis
    by (simp add: always_server_error_def not_isRateLimit_server_error batch_A_shots
        initialShots_apply PRODUCT_STYLES_def spread_def)
qed

text \<open>
  C5. The ratio handed to the generation backend is given by a fixed table over the
  selectable ratios \<open>ASPECT_RATIOS\<close>: 2:3 becomes 3:4, 3:2 becomes 4:3, 21:9 becomes 16:9, and
  the five ratios the backend supports (1:1, 3:4, 4:3, 9:16, 16:9) are passed unchanged. The
  requests of \<^verbatim>\<open>generateShot\<close> and of \<^verbatim>\<open>editShot\<close> carry the mapped ratio.
\<close>

theorem mapToGeminiAspectRatio_table:
  "ASPECT_RATIOS =
     [Ratio_1_1, Ratio_2_3, Ratio_3_2, Ratio_3_4, Ratio_4_3, Ratio_9_16, Ratio_16_9, Ratio_21_9]
   \<and> map mapToGeminiAspectRatio ASPECT_RATIOS =
     [Ratio_1_1, Ratio_3_4, Ratio_4_3, Ratio_3_4, Ratio_4_3, Ratio_9_16, Ratio_16_9, Ratio_16_9]
   \<and> req_aspectRatio (generateShot_request src shotDef name description ratio) =
     Some (mapToGeminiAspectRatio ratio)
   \<and> req_aspectRatio (editShot_request name description shotDef editPrompt ratio) =
     Some (mapToGeminiAspectRatio ratio)"
  by (simp add: ASPECT_RATIOS_def generateShot_request_def editShot_request_def Let_def)

text \<open>
  C10. For every style and every subject type argument, \<open>getShotDefinition\<close> returns the
  table entry of the style with a quality suffix appended to its prompt template; the
  suffix is the human one exactly for the styles of \<open>HUMAN_STYLES\<close> and the product one for
  all others, and the subject type argument does not influence the result.
\<close>

theorem getShotDefinition_suffix_by_style:
  "getShotDefinition style subject =
     (SHOT_DEFINITIONS style)\<lparr>sd_promptTemplate :=
        sd_promptTemplate (SHOT_DEFINITIONS style) @
        (if style \<in> set HUMAN_STYLES then HUMAN_QUALITY_SUFFIX else PRODUCT_QUALITY_SUFFIX)\<rparr>
   \<and> getShotDefinition style subject = getShotDefinition style subject'"
  by (simp add: getShotDefinition_def Let_def)

text \<open>
  C6. Claimed: \<open>analyzeProduct\<close> never raises, and on any failure, a backend error or a
  malformed or unparsable output, it returns the fixed default descriptor with confidence 0.
  In the run below the backend answers with the empty object \<^verbatim>\<open>{}\<close> between code fences, an
  output without any of the fields asked for: it parses, and the result has confidence 0.8
  and framing quality \<^verbatim>\<open>ok\<close>; it is not the default descriptor.
\<close>

theorem parsable_output_counterexample:
  "always_fenced_object (analyzeProduct_request image_X) 0 = Responds fenced_object_response
   \<and> response_jsonStr fenced_object_response = ''{}''
   \<and> analyzeProduct always_fenced_object parse_run image_X =
       Inr (fallback_analysis\<lparr>ar_confidence := 8 / 10, ar_framingQuality := Some ''ok''\<rparr>)
   \<and> analyzeProduct always_fenced_object parse_run image_X \<noteq> Inr fallback_analysis
   \<and> ar_confidence (fallback_analysis\<lparr>ar_confidence := 8 / 10, ar_framingQuality := Some ''ok''\<rparr>)
       \<noteq> 0"
proof -
  have r: "always_fenced_object (analyzeProduct_request image_X) 0 =
           Responds fenced_object_response"
    by (simp add: always_fenced_object_def)
  have p: "parse_run (response_jsonStr fenced_object_response) =
           JsonValue \<lparr>aj_productName = None, aj_description = None, aj_category = None,
                      aj_confidence = None, aj_isHuman = None, aj_framingQuality = None,
                      aj_recommendations = None\<rparr>"
    by (simp add: response_jsonStr_fenced parse_run_def)
  have "analyzeProduct always_fenced_object parse_run image_X =
        Inr (fallback_analysis\<lparr>ar_confidence := 8 / 10, ar_framingQuality := Some ''ok''\<rparr>)"
    using r p by (rule analysis_of_empty_object)
  then show ?thesis
    using r by (simp add: response_jsonStr_fenced fallback_analysis_def)
qed

text \<open>
  C6, as the service has it. For every source image, backend and parser, \<open>analyzeProduct\<close>
  returns a descriptor and raises nothing to its caller. When the backend rejects the call,
  or when the text of the response is rejected by \<^verbatim>\<open>JSON.parse\<close> or parses to \<^verbatim>\<open>null\<close>, the
  result is the fixed fallback descriptor: confidence 0, name \<^verbatim>\<open>Subject\<close>, description
  \<^verbatim>\<open>A detailed shot of the subject.\<close> When the text parses to a value, there is no fallback:
  each field that is missing or empty gets its own default, the confidence is the parsed one
  or else 0.8 and never 0, the framing quality is the parsed one or else \<^verbatim>\<open>ok\<close>, and the
  result differs from the fallback descriptor. Generation proceeds unaffected: whatever the
  analysis did, \<open>handleImageSelect\<close> leaves the source image selected and detection
  finished, the batch that \<open>handleGenerate\<close> then creates is the batch of loading entries
  of the product catalog, and the batch it leaves has the styles of that catalog as keys.
\<close>

theorem analyzeProduct_falls_back_and_never_raises:
  "(\<exists>result. analyzeProduct ai JSON_parse src = Inr result)
   \<and> (ai (analyzeProduct_request src) 0 = Rejects e \<longrightarrow>
        analyzeProduct ai JSON_parse src = Inr fallback_analysis)
   \<and> (ai (analyzeProduct_request src) 0 = Responds response \<and>
        (JSON_parse (response_jsonStr response) = SyntaxError \<or>
         JSON_parse (response_jsonStr response) = JsonNull) \<longrightarrow>
        analyzeProduct ai JSON_parse src = Inr fallback_analysis)
   \<and> (ai (analyzeProduct_request src) 0 = Responds response \<and>
        JSON_parse (response_jsonStr response) = JsonValue parsed \<longrightarrow>
        analyzeProduct ai JSON_parse src =
          Inr \<lparr>ar_productName = or_string (aj_productName parsed) ''Subject'',
               ar_description =
                 or_string (aj_description parsed) ''A detailed shot of the subject.'',
               ar_category = or_string (aj_category parsed) ''general'',
               ar_confidence = or_number (aj_confidence parsed) (8 / 10),
               ar_isHuman = aj_isHuman parsed,
               ar_framingQuality = Some (or_string (aj_framingQuality parsed) ''ok''),
               ar_recommendations =
                 (case aj_recommendations parsed of Some r \<Rightarrow> r | None \<Rightarrow> [])\<rparr>
        \<and> analyzeProduct ai JSON_parse src \<noteq> Inr fallback_analysis)
   \<and> or_number confidence (8 / 10) \<noteq> 0
   \<and> or_number None default_number = default_number
   \<and> or_number (Some 0) default_number = default_number
   \<and> or_string None default_text = default_text
   \<and> or_string (Some []) default_text = default_text
   \<and> ar_confidence fallback_analysis = 0
   \<and> ar_productName fallback_analysis = ''Subject''
   \<and> ar_description fallback_analysis = ''A detailed shot of the subject.''
   \<and> sourceImage (handleImageSelect ai JSON_parse src s) = Some src
   \<and> isDetecting (handleImageSelect ai JSON_parse src s) = False
   \<and> (src \<noteq> [] \<longrightarrow>
        generatedShots (handleGenerate_begin now (handleImageSelect ai JSON_parse src s)) =
          initialShots now PRODUCT PRODUCT_STYLES)
   \<and> (src \<noteq> [] \<longrightarrow>
        dom (generatedShots
               (fst (handleGenerate ai' outcome now now'
                       (handleImageSelect ai JSON_parse src s, db)))) =
          set PRODUCT_STYLES)"
proof -
  have "src \<noteq> [] \<Longrightarrow>
        generatedShots (handleGenerate_begin now (handleImageSelect ai JSON_parse src s)) =
          initialShots now PRODUCT PRODUCT_STYLES"
    by (simp add: handleGenerate_begin_shots handleImageSelect_frame truthy_def activeStyles_def)
  moreover have "src \<noteq> [] \<Longrightarrow>
        dom (generatedShots
               (fst (handleGenerate ai' outcome now now'
                       (handleImageSelect ai JSON_parse src s, db)))) =
          set PRODUCT_STYLES"
    by (simp add: dom_handleGenerate handleImageSelect_frame truthy_def activeStyles_def)
  moreover have "ai (analyzeProduct_request src) 0 = Rejects e \<Longrightarrow>
        analyzeProduct ai JSON_parse src = Inr fallback_analysis"
    by (simp add: analyzeProduct_cases)
  moreover have "ai (analyzeProduct_request src) 0 = Responds response \<Longrightarrow>
        JSON_parse (response_jsonStr response) = SyntaxError \<or>
        JSON_parse (response_jsonStr response) = JsonNull \<Longrightarrow>
        analyzeProduct ai JSON_parse src = Inr fallback_analysis"
    by (auto simp: analyzeProduct_cases)
  moreover have "ai (analyzeProduct_request src) 0 = Responds response \<Longrightarrow>
        JSON_parse (response_jsonStr response) = JsonValue parsed \<Longrightarrow>
        analyzeProduct ai JSON_parse src =
          Inr \<lparr>ar_productName = or_string (aj_productName parsed) ''Subject'',
               ar_description =
                 or_string (aj_description parsed) ''A detailed shot of the subject.'',
               ar_category = or_string (aj_category parsed) ''general'',
               ar_confidence = or_number (aj_confidence parsed) (8 / 10),
               ar_isHuman = aj_isHuman parsed,
               ar_framingQuality = Some (or_string (aj_framingQuality parsed) ''ok''),
               ar_recommendations =
                 (case aj_recommendations parsed of Some r \<Rightarrow> r | None \<Rightarrow> [])\<rparr>
        \<and> analyzeProduct ai JSON_parse src \<noteq> Inr fallback_analysis"
    by (simp add: analyzeProduct_parsed fallback_analysis_def)
  moreover have "or_number None default_number = default_number"
    "or_number (Some 0) default_number = default_number"
    "or_string None default_text = default_text"
    "or_string (Some []) default_text = default_text"
    by (simp_all add: or_number_def or_string_def)
  ultimately show ?thesis
    using analyzeProduct_returns [of ai JSON_parse src] or_number_nonzero [of confidence]
    by (simp add: handleImageSelect_frame fallback_analysis_def)
qed

theorem analyzeProduct_falls_back_and_never_raises_witness:
  "always_server_error (analyzeProduct_request image_X) 0 = Rejects server_error
   \<and> analyzeProduct always_server_error parse_run image_X = Inr fallback_analysis
   \<and> always_prose (analyzeProduct_request image_X) 0 = Responds prose_response
   \<and> parse_run (response_jsonStr prose_response) = SyntaxError
   \<and> analyzeProduct always_prose parse_run image_X = Inr fallback_analysis
   \<and> always_fenced_object (analyzeProduct_request image_X) 0 = Responds fenced_object_response
   \<and> parse_run (response_jsonStr fenced_object_response) =
       JsonValue \<lparr>aj_productName = None, aj_description = None, aj_category = None,
                  aj_confidence = None, aj_isHuman = None, aj_framingQuality = None,
                  aj_recommendations = None\<rparr>
   \<and> analyzeProduct always_fenced_object parse_run image_X =
       Inr \<lparr>ar_productName = ''Subject'', ar_description = ''A detailed shot of the subject.'',
            ar_category = ''general'', ar_confidence = 8 / 10, ar_isHuman = None,
            ar_framingQuality = Some ''ok'', ar_recommendations = []\<rparr>
   \<and> image_X \<noteq> []
   \<and> generatedShots
       (handleGenerate_begin 1000 (handleImageSelect always_prose parse_run image_X initial_app))
       HERO = Some (loadingShot 1000 PRODUCT HERO)
   \<and> dom (generatedShots
       (fst (handleGenerate always_image PutDone 1000 1500
               (handleImageSelect always_prose parse_run image_X initial_app, Map.empty)))) =
       set PRODUCT_STYLES"
proof -
  have r: "always_server_error (analyzeProduct_request image_X) 0 = Rejects server_error"
    by (simp add: always_server_error_def)
  have p: "always_prose (analyzeProduct_request image_X) 0 = Responds prose_response"
    by (simp add: always_prose_def)
  have q: "parse_run (response_jsonStr prose_response) = SyntaxError"
    by (simp add: response_jsonStr_prose parse_run_def)
  have f: "always_fenced_object (analyzeProduct_request image_X) 0 =
           Responds fenced_object_response"
    by (simp add: always_fenced_object_def)
  have j: "parse_run (response_jsonStr fenced_object_response) =
           JsonValue \<lparr>aj_productName = None, aj_description = None, aj_category = None,
                      aj_confidence = None, aj_isHuman = None, aj_framingQuality = None,
                      aj_recommendations = None\<rparr>"
    by (simp add: response_jsonStr_fenced parse_run_def)
  have x: "image_X \<noteq> []"
    by (simp add: image_X_def)
  from analyzeProduct_falls_back_and_never_raises
         [where ai = always_server_error and JSON_parse = parse_run and src = image_X
            and e = server_error]
       analyzeProduct_falls_back_and_never_raises
         [where ai = always_prose and JSON_parse = parse_run and src = image_X
            and response = prose_response and s = initial_app and now = 1000
            and ai' = always_image and outcome = PutDone and now' = 1500 and db = Map.empty]
       analyzeProduct_falls_back_and_never_raises
         [where ai = always_fenced_object and JSON_parse = parse_run and src = image_X
            and response = fenced_object_response
            and parsed = "\<lparr>aj_productName = None, aj_description = None, aj_category = None,
                      aj_confidence = None, aj_isHuman = None, aj_framingQuality = None,
                      aj_recommendations = None\<rparr>"]
  show ?thesis
    using r p q f j x
    by (simp add: initialShots_apply product_styles_mem or_string_def or_number_def)
qed

text \<open>
  C7. A successful edit of one style, in a state that holds a source image and a generated
  image for that style: the entry of the style becomes the entry it was with the new image,
  not loading, the time of the edit and the custom prompt; the entry of every other style is
  what it was; the store then holds, under the project id in use, a snapshot whose shots
  are the whole new map, and every other key of the store is untouched. If the store held,
  under that id, a snapshot of the shots before the edit, then the entry of every other
  style in the new snapshot equals its entry in the prior snapshot. Whatever state is
  current when the edit settles, the settlement changes the entry of no other style.
\<close>

theorem edit_changes_only_targeted_style:
  assumes "generatedShots s type = Some currentShot" and "truthy (gi_imageUrl currentShot)"
    and "editShot ai (productName s) (productDescription s)
           (getShotDefinition type (subjectType s)) customPrompt (aspectRatio s) = Inr url"
    and "sourceImage s = Some src" and "src \<noteq> []"
  shows "generatedShots (fst (handleEditShot ai PutDone now type customPrompt (s, db))) type =
           Some (currentShot\<lparr>gi_imageUrl := Some url, gi_isLoading := Some False,
                             gi_timestamp := Some now, gi_customPrompt := Some customPrompt\<rparr>)
       \<and> (\<forall>t. t \<noteq> type \<longrightarrow>
             generatedShots (fst (handleEditShot ai PutDone now type customPrompt (s, db))) t =
             generatedShots s t)
       \<and> snd (handleEditShot ai PutDone now type customPrompt (s, db)) (activeProjectId now s) =
           Some \<lparr>ph_id = activeProjectId now s, ph_timestamp = now, ph_sourceImage = src,
                 ph_productName = productName s, ph_productDescription = productDescription s,
                 ph_productCategory = productCategory s, ph_subjectType = subjectType s,
                 ph_generatedShots =
                   generatedShots (fst (handleEditShot ai PutDone now type customPrompt (s, db)))\<rparr>
       \<and> (\<forall>k. k \<noteq> activeProjectId now s \<longrightarrow>
             snd (handleEditShot ai PutDone now type customPrompt (s, db)) k = db k)
       \<and> (\<forall>prior t. db (activeProjectId now s) = Some prior \<and>
             ph_generatedShots prior = generatedShots s \<and> t \<noteq> type \<longrightarrow>
             map_option (\<lambda>snapshot. ph_generatedShots snapshot t)
               (snd (handleEditShot ai PutDone now type customPrompt (s, db)) (activeProjectId now s)) =
             Some (ph_generatedShots prior t))
       \<and> (\<forall>t. t \<noteq> type \<longrightarrow>
             generatedShots
               (fst (handleEditShot_succeeded c outcome now type customPrompt shot url' sdb)) t =
             generatedShots (fst sdb) t)"
proof -
  let ?after = "handleEditShot ai PutDone now type customPrompt (s, db)"
  let ?updated = "currentShot\<lparr>gi_imageUrl := Some url, gi_isLoading := Some False,
                             gi_timestamp := Some now, gi_customPrompt := Some customPrompt\<rparr>"
  have shots: "generatedShots (fst ?after) = (generatedShots s)(type \<mapsto> ?updated)"
    by (simp add: handleEditShot_success [OF assms(1-3)] handleEditShot_succeeded_shots)
  have store: "snd ?after = db(activeProjectId now s \<mapsto>
           \<lparr>ph_id = activeProjectId now s, ph_timestamp = now, ph_sourceImage = src,
            ph_productName = productName s, ph_productDescription = productDescription s,
            ph_productCategory = productCategory s, ph_subjectType = subjectType s,
            ph_generatedShots = (generatedShots s)(type \<mapsto> ?updated)\<rparr>)"
    by (simp add: handleEditShot_success [OF assms(1-3)] handleEditShot_succeeded_store
        saveToHistory_store [OF assms(4,5)] activeProjectId_def)
  show ?thesis
    by (simp add: shots store handleEditShot_succeeded_shots)
qed

theorem edit_changes_only_targeted_style_witness:
  "generatedShots (fst persisted_A) HERO =
     Some ((loadingShot 1000 PRODUCT HERO)
             \<lparr>gi_imageUrl := Some ''data:image/jpeg;base64,QUJD'', gi_isLoading := Some False\<rparr>)
   \<and> map_option ph_generatedShots (snd persisted_A ''1000'') = Some (generatedShots (fst persisted_A))
   \<and> sourceImage (fst persisted_A) = Some image_X
   \<and> generatedShots (fst edited_A) HERO =
       Some ((loadingShot 1000 PRODUCT HERO)
               \<lparr>gi_imageUrl := Some ''data:image/jpeg;base64,QUJD'', gi_isLoading := Some False,
                 gi_timestamp := Some 3000,
                 gi_customPrompt := Some ''Make the background darker.''\<rparr>)
   \<and> generatedShots (fst edited_A) MACRO = generatedShots (fst persisted_A) MACRO
   \<and> map_option ph_generatedShots (snd edited_A ''1000'') = Some (generatedShots (fst edited_A))
   \<and> snd edited_A ''999'' = snd persisted_A ''999''
   \<and> map_option (\<lambda>snapshot. ph_generatedShots snapshot MACRO) (snd edited_A ''1000'') =
       map_option (\<lambda>snapshot. ph_generatedShots snapshot MACRO) (snd persisted_A ''1000'')"
proof -
  let ?s = "fst persisted_A" and ?db = "snd persisted_A"
  let ?cur = "(loadingShot 1000 PRODUCT HERO)
             \<lparr>gi_imageUrl := Some ''data:image/jpeg;base64,QUJD'', gi_isLoading := Some False\<rparr>"
  have cur: "generatedShots ?s HERO = Some ?cur"
    by (simp add: persisted_A_state processQueue_always_image batch_A_shots initialShots_apply
        product_styles_mem spread_def)
  have url: "truthy (gi_imageUrl ?cur)"
    by (simp add: truthy_def)
  have edit: "editShot always_image (productName ?s) (productDescription ?s)
                (getShotDefinition HERO (subjectType ?s)) ''Make the background darker.''
                (aspectRatio ?s) = Inr ''data:image/jpeg;base64,QUJD''"
    by (simp add: editShot_def always_image_def image_of_image_response)
  have src: "sourceImage ?s = Some image_X"
    by (simp add: persisted_A_state batch_A_fields)
  have pid: "activeProjectId 3000 ?s = ''1000''"
    by (simp add: activeProjectId_def persisted_A_state batch_A_fields)
  have e: "edited_A = handleEditShot always_image PutDone 3000 HERO ''Make the background darker.''
             (?s, ?db)"
    by (simp add: edited_A_def)
  from edit_changes_only_targeted_style
    [where s = ?s and type = HERO and currentShot = ?cur and ai = always_image
       and customPrompt = "''Make the background darker.''" and src = image_X and now = 3000
       and db = ?db, OF cur url edit src images_nonempty(1)]
  show ?thesis
    unfolding e [symmetric] pid
    using cur src
    by (simp add: persisted_A_store persisted_A_state)
qed

text \<open>
  C8. Claimed: the tasks map of every batch holds exactly one entry per style of the
  active catalog, and a mode switch discards the tasks of the prior batch, so that styles of
  the two catalogs are never mixed. In the run below the mode is switched to \<open>HUMAN\<close> while
  the product batch of \<open>image_X\<close> is in flight, and a human batch is started: it has the 9
  human styles as keys. Then the \<open>HERO\<close> task of the product batch settles: the map of the
  human batch has 10 keys, one of them the product style \<open>HERO\<close>.
\<close>

theorem catalogs_mixed_counterexample:
  "subjectType (handleGenerate_begin 2000 (onSelect HUMAN batch_A)) = HUMAN
   \<and> dom (generatedShots (handleGenerate_begin 2000 (onSelect HUMAN batch_A))) = set HUMAN_STYLES
   \<and> HERO \<notin> set (activeStyles HUMAN)
   \<and> HERO \<in> dom (generatedShots
        (fst (processShot always_image image_X closure_A HERO
                (handleGenerate_begin 2000 (onSelect HUMAN batch_A)))))
   \<and> card (dom (generatedShots
        (fst (processShot always_image image_X closure_A HERO
                (handleGenerate_begin 2000 (onSelect HUMAN batch_A)))))) = 10"
proof -
  have t: "truthy (sourceImage (onSelect HUMAN batch_A))"
    "subjectType (onSelect HUMAN batch_A) = HUMAN"
    by (simp_all add: onSelect_def batch_A_fields truthy_images)
  have d: "dom (generatedShots (handleGenerate_begin 2000 (onSelect HUMAN batch_A))) =
           set HUMAN_STYLES"
    by (simp add: handleGenerate_begin_shots t dom_initialShots activeStyles_def)
  have m: "subjectType (handleGenerate_begin 2000 (onSelect HUMAN batch_A)) = HUMAN"
    using t by (simp add: handleGenerate_begin_def Let_def)
  have h: "HERO \<notin> set HUMAN_STYLES"
    by (simp add: HUMAN_STYLES_def)
  then have "card (insert HERO (set HUMAN_STYLES)) = 10"
    by (simp add: card_catalogs)
  then show ?thesis
    using h by (simp add: d m dom_processShot activeStyles_def)
qed

text \<open>
  C8, as the handlers have it. The batch that \<open>handleGenerate\<close> creates for a state with a
  source image has exactly the styles of the active catalog as keys: one loading entry per
  style, 9 in all, each of the style of its key. The keys stay the same while the tasks of
  this run settle and the batch is saved, and under an edit. Selecting another subject type
  empties the map, and the batch created after the switch has exactly the styles of the
  catalog of the new type; the two catalogs share no style.
\<close>

theorem batch_has_one_task_per_active_style:
  assumes "truthy (sourceImage s)"
  shows "dom (generatedShots (handleGenerate_begin now s)) = set (activeStyles (subjectType s))
       \<and> card (dom (generatedShots (handleGenerate_begin now s))) =
           length (activeStyles (subjectType s))
       \<and> length (activeStyles (subjectType s)) = 9
       \<and> (\<forall>t \<in> set (activeStyles (subjectType s)).
             generatedShots (handleGenerate_begin now s) t =
               Some (loadingShot now (subjectType s) t) \<and>
             gi_shotType (loadingShot now (subjectType s) t) = Some t)
       \<and> dom (generatedShots (fst (handleGenerate ai outcome now now' (s, db)))) =
           set (activeStyles (subjectType s))
       \<and> dom (generatedShots (fst (handleEditShot ai outcome now type customPrompt (s, db)))) =
           dom (generatedShots s)
       \<and> (mode \<noteq> subjectType s \<longrightarrow> generatedShots (onSelect mode s) = Map.empty)
       \<and> dom (generatedShots (handleGenerate_begin now (onSelect mode s))) =
           set (activeStyles mode)
       \<and> set HUMAN_STYLES \<inter> set PRODUCT_STYLES = {}"
proof -
  have "truthy (sourceImage (onSelect mode s))" "subjectType (onSelect mode s) = mode"
    using assms by (simp_all add: onSelect_def)
  then have after: "generatedShots (handleGenerate_begin now (onSelect mode s)) =
      initialShots now mode (activeStyles mode)"
    by (simp add: handleGenerate_begin_shots)
  have "card (set (activeStyles (subjectType s))) = length (activeStyles (subjectType s))"
    by (rule distinct_card) (rule activeStyles_catalog)
  then show ?thesis
    using assms
    by (simp add: handleGenerate_begin_shots after dom_initialShots initialShots_apply
        activeStyles_catalog catalogs onSelect_def loadingShot_def dom_handleGenerate
        dom_handleEditShot)
qed

theorem batch_has_one_task_per_active_style_witness:
  "truthy (sourceImage batch_A)
   \<and> dom (generatedShots (handleGenerate_begin 3000 batch_A)) = set PRODUCT_STYLES
   \<and> card (dom (generatedShots (handleGenerate_begin 3000 batch_A))) = 9
   \<and> generatedShots (handleGenerate_begin 3000 batch_A) HERO = Some (loadingShot 3000 PRODUCT HERO)
   \<and> dom (generatedShots (fst (handleGenerate rate_limited_thrice PutDone 3000 3500
                                  (batch_A, Map.empty)))) = set PRODUCT_STYLES
   \<and> HUMAN \<noteq> subjectType batch_A
   \<and> generatedShots (onSelect HUMAN batch_A) = Map.empty
   \<and> dom (generatedShots (handleGenerate_begin 3000 (onSelect HUMAN batch_A))) = set HUMAN_STYLES"
proof -
  have t: "truthy (sourceImage batch_A)"
    by (simp add: batch_A_fields truthy_images)
  from batch_has_one_task_per_active_style
    [where s = batch_A and now = 3000 and mode = HUMAN and ai = rate_limited_thrice
       and outcome = PutDone and now' = 3500 and db = Map.empty, OF t]
  show ?thesis
    using t by (simp add: batch_A_fields activeStyles_def catalogs card_catalogs product_styles_mem)
qed

text \<open>
  C9. \<open>saveProject\<close> is idempotent: writing a snapshot twice leaves the store as writing it
  once does. A successful write stores the snapshot under its id and changes no other key;
  a later write under the same id overwrites the earlier one, so that the store is the one
  that the later write alone gives; a failed write changes nothing. Saving the same shots
  twice through \<open>saveToHistory\<close> under one project id leaves the store that the second
  save alone gives.
\<close>

theorem saveProject_idempotent:
  "saveProject outcome project (saveProject outcome project db) = saveProject outcome project db
   \<and> saveProject PutDone project db (ph_id project) = Some project
   \<and> (ph_id later = ph_id project \<longrightarrow>
        saveProject PutDone later (saveProject PutDone project db) = saveProject PutDone later db)
   \<and> (\<forall>k. k \<noteq> ph_id project \<longrightarrow> saveProject PutDone project db k = db k)
   \<and> saveProject PutFails project db = db
   \<and> (truthy pid \<longrightarrow>
        snd (saveToHistory c PutDone now' shots pid (saveToHistory c PutDone now shots pid sdb)) =
        snd (saveToHistory c PutDone now' shots pid sdb))"
  by (cases outcome) (auto simp: saveProject_def saveToHistory_def Let_def truthy_def
      split: option.splits)

theorem saveProject_idempotent_witness:
  "saveProject PutDone snapshot_early (saveProject PutDone snapshot_early Map.empty) =
     saveProject PutDone snapshot_early Map.empty
   \<and> ph_id snapshot_late = ph_id snapshot_early
   \<and> saveProject PutDone snapshot_late (saveProject PutDone snapshot_early Map.empty) =
       saveProject PutDone snapshot_late Map.empty
   \<and> saveProject PutDone snapshot_late (saveProject PutDone snapshot_early Map.empty) ''1000'' =
       Some snapshot_late
   \<and> ''999'' \<noteq> ph_id snapshot_early
   \<and> saveProject PutDone snapshot_early Map.empty ''999'' = None
   \<and> truthy (Some ''1000'')
   \<and> snd (saveToHistory closure_A PutDone 1600 (generatedShots batch_A) (Some ''1000'')
            (saveToHistory closure_A PutDone 1500 (generatedShots batch_A) (Some ''1000'')
               (batch_A, Map.empty))) =
       snd (saveToHistory closure_A PutDone 1600 (generatedShots batch_A) (Some ''1000'')
              (batch_A, Map.empty))"
proof -
  have i: "ph_id snapshot_late = ph_id snapshot_early" "ph_id snapshot_early = ''1000''"
    by (simp_all add: snapshot_late_def snapshot_early_def)
  have t: "truthy (Some ''1000'')"
    by (simp add: truthy_def)
  from saveProject_idempotent
         [where outcome = PutDone and project = snapshot_early and db = Map.empty
            and later = snapshot_late and pid = "Some ''1000''" and c = closure_A and now = 1500
            and now' = 1600 and shots = "generatedShots batch_A" and sdb = "(batch_A, Map.empty)"]
       saveProject_idempotent
         [where project = snapshot_late and db = "saveProject PutDone snapshot_early Map.empty"]
  show ?thesis
    using i t by simp
qed

end
